theory Spec2Isabelle
  imports Main "HOL-Library.Word"
begin

section \<open>Relacon device-access core: data model\<close>

text \<open>
  The embedding follows the C sources: \<open>Relacon.h\<close> (public types), \<open>Relacon.c\<close>
  (session core), \<open>DeviceCapabilities.c\<close> (capability table), \<open>BackendHidapi.c\<close> and
  \<open>BackendLibusb.c\<close> (the two transports). \<open>uint8_t\<close>, \<open>uint16_t\<close> and \<open>unsigned\<close>
  are words of 8, 16 and 32 bits.
\<close>

type_synonym byte = "8 word"

text \<open>\<open>enum RelaconStatus\<close> of \<open>Relacon.h\<close>.\<close>

datatype RelaconStatus =
    RELACON_STATUS_SUCCESS
  | RELACON_STATUS_ERROR_ARGUMENT_NULL
  | RELACON_STATUS_ERROR_INVALID_PARAM
  | RELACON_STATUS_ERROR_OUT_OF_MEMORY
  | RELACON_STATUS_ERROR_TIMEOUT
  | RELACON_STATUS_ERROR_BAD_RESPONSE
  | RELACON_STATUS_ERROR_DEVICE_IO
  | RELACON_STATUS_ERROR_INTERNAL
  | RELACON_STATUS_ERROR_NO_ENTRY

subsection \<open>Capability table (\<open>DeviceCapabilities.c\<close>)\<close>

record DeviceCapabilities =
  numInputs :: "32 word"
  numRelays :: "32 word"

record DeviceTableEntry =
  entry_vid :: "16 word"
  entry_pid :: "16 word"
  capabilities :: DeviceCapabilities

definition VID_ONTRAK :: "16 word" where "VID_ONTRAK = 0x0a07"
definition VID_PIDCODES :: "16 word" where "VID_PIDCODES = 0x1209"
definition PID_ADU200 :: "16 word" where "PID_ADU200 = 200"
definition PID_ADU208 :: "16 word" where "PID_ADU208 = 208"
definition PID_ADU218 :: "16 word" where "PID_ADU218 = 218"
definition PID_RELACON :: "16 word" where "PID_RELACON = 0xFA70"

text \<open>
  The table as the source initialises it. The ADU200 entry is inside a comment in the
  source (``Not yet tested/supported''), so it is no element of the array.
\<close>

definition SUPPORTED_DEVICES :: "DeviceTableEntry list" where
  "SUPPORTED_DEVICES =
     [ \<lparr>entry_vid = VID_ONTRAK, entry_pid = PID_ADU208,
        capabilities = \<lparr>numInputs = 8, numRelays = 8\<rparr>\<rparr>,
       \<lparr>entry_vid = VID_ONTRAK, entry_pid = PID_ADU218,
        capabilities = \<lparr>numInputs = 8, numRelays = 8\<rparr>\<rparr>,
       \<lparr>entry_vid = VID_PIDCODES, entry_pid = PID_RELACON,
        capabilities = \<lparr>numInputs = 8, numRelays = 8\<rparr>\<rparr> ]"

text \<open>
  The \<open>for\<close> loop of \<open>DeviceCapabilitiesQuery\<close> over the table; the returned pointer is
  \<open>Some\<close> of the capabilities, \<open>NULL\<close> is \<open>None\<close>.
\<close>

fun DeviceCapabilitiesQuery_loop ::
  "DeviceTableEntry list \<Rightarrow> 16 word \<Rightarrow> 16 word \<Rightarrow> DeviceCapabilities option" where
  "DeviceCapabilitiesQuery_loop [] vid pid = None"
| "DeviceCapabilitiesQuery_loop (entry # rest) vid pid =
     (if entry_vid entry = vid \<and> entry_pid entry = pid
      then Some (capabilities entry)
      else DeviceCapabilitiesQuery_loop rest vid pid)"

definition DeviceCapabilitiesQuery :: "16 word \<Rightarrow> 16 word \<Rightarrow> DeviceCapabilities option" where
  "DeviceCapabilitiesQuery vid pid = DeviceCapabilitiesQuery_loop SUPPORTED_DEVICES vid pid"

subsection \<open>C library functions on byte strings\<close>

text \<open>
  Memory is a list of bytes starting at the address a pointer holds. A C string is the
  part of that memory before its first zero byte; where the list holds no zero byte its
  end stands for the terminator.
\<close>

definition ascii :: "string \<Rightarrow> byte list" where
  "ascii s = map of_char s"

definition cstr :: "byte list \<Rightarrow> byte list" where
  "cstr m = takeWhile (\<lambda>b. b \<noteq> 0) m"

definition strlen :: "byte list \<Rightarrow> nat" where
  "strlen m = length (cstr m)"

text \<open>Storing \<open>bytes\<close> at offset \<open>i\<close> of a region, as \<open>memcpy\<close> and \<open>memset\<close> do.\<close>

definition write_at :: "nat \<Rightarrow> byte list \<Rightarrow> byte list \<Rightarrow> byte list" where
  "write_at i bytes m = take i m @ bytes @ drop (i + length bytes) m"

text \<open>
  \<open>strncpy(dest, src, n)\<close> stores exactly \<open>n\<close> bytes: the string at \<open>src\<close> cut to
  \<open>n\<close> characters, then zero bytes up to \<open>n\<close>.
\<close>

definition strncpy :: "byte list \<Rightarrow> byte list \<Rightarrow> nat \<Rightarrow> byte list" where
  "strncpy dest src n =
     write_at 0 (take n (cstr src) @ replicate (n - strlen src) 0) dest"

text \<open>
  \<open>vsnprintf(str, n, fmt, ...)\<close>, given the text the format expands to: at most
  \<open>n - 1\<close> characters and a terminator are stored, the full length is returned.
\<close>

definition vsnprintf :: "byte list \<Rightarrow> nat \<Rightarrow> byte list \<Rightarrow> byte list \<times> int" where
  "vsnprintf str n text =
     (if n = 0 then str else write_at 0 (take (n - 1) text @ [0]) str,
      int (length text))"

text \<open>The conversions \<open>%d\<close> and \<open>%03u\<close> of \<open>printf\<close>.\<close>

fun dec :: "nat \<Rightarrow> byte list" where
  "dec n = (if n < 10 then [of_nat (48 + n)]
            else dec (n div 10) @ [of_nat (48 + n mod 10)])"

declare dec.simps [simp del]

definition fmt_d :: "int \<Rightarrow> byte list" where
  "fmt_d i = (if i < 0 then 0x2d # dec (nat (- i)) else dec (nat i))"

definition fmt_03u :: "nat \<Rightarrow> byte list" where
  "fmt_03u n = replicate (3 - length (dec n)) 0x30 @ dec n"

text \<open>
  \<open>strtol(nptr, &endptr, 10)\<close> in the C locale: white space is skipped, an optional sign
  is read, then decimal digits. Without any digit no conversion is made: the value is 0
  and \<open>endptr\<close> is \<open>nptr\<close>. A value out of the range of \<open>long\<close> (64 bits here) is
  clamped. The result is the value and the memory from \<open>endptr\<close> on.
\<close>

definition isspace :: "byte \<Rightarrow> bool" where
  "isspace c = (c = 0x20 \<or> (0x09 \<le> c \<and> c \<le> 0x0d))"

definition isdigit :: "byte \<Rightarrow> bool" where
  "isdigit c = (0x30 \<le> c \<and> c \<le> 0x39)"

definition digits_value :: "byte list \<Rightarrow> int" where
  "digits_value ds = foldl (\<lambda>acc c. 10 * acc + (uint c - 48)) 0 ds"

definition LONG_MAX :: int where "LONG_MAX = 2 ^ 63 - 1"
definition LONG_MIN :: int where "LONG_MIN = - (2 ^ 63)"

definition strtol_sign :: "byte list \<Rightarrow> bool \<times> byte list" where
  "strtol_sign s =
     (case s of
        [] \<Rightarrow> (False, s)
      | c # r \<Rightarrow> if c = 0x2d then (True, r) else if c = 0x2b then (False, r) else (False, s))"

definition strtol :: "byte list \<Rightarrow> int \<times> byte list" where
  "strtol nptr =
     (let (neg, s) = strtol_sign (dropWhile isspace nptr);
          ds = takeWhile isdigit s
      in if ds = [] then (0, nptr)
         else (max LONG_MIN (min LONG_MAX ((if neg then - 1 else 1) * digits_value ds)),
               dropWhile isdigit s))"

text \<open>Reading the byte a \<open>char\<close> pointer holds the address of.\<close>

definition deref :: "byte list \<Rightarrow> byte" where
  "deref m = (case m of [] \<Rightarrow> 0 | c # _ \<Rightarrow> c)"

subsection \<open>Sessions and the transport under them (\<open>Relacon.c\<close>, \<open>Backend.h\<close>)\<close>

definition REPORT_DATA_LEN :: nat where "REPORT_DATA_LEN = 7"
definition REPORT_BUF_LEN :: nat where "REPORT_BUF_LEN = REPORT_DATA_LEN + 1"
definition REPORT_ID_CMD :: byte where "REPORT_ID_CMD = 1"
definition DEFAULT_TIMEOUT_MS :: int where "DEFAULT_TIMEOUT_MS = 500"
definition UINT8_MAX :: int where "UINT8_MAX = 255"
definition UINT16_MAX :: int where "UINT16_MAX = 65535"

text \<open>
  \<open>struct RelaconDeviceInfo\<close>. A pointer is \<open>None\<close> when it is \<open>NULL\<close>, otherwise
  the address of a block of the heap.
\<close>

record RelaconDeviceInfo =
  vid :: "16 word"
  pid :: "16 word"
  serialNum :: "nat option"
  manufacturer :: "nat option"
  product :: "nat option"
  handle :: "nat option"
  numRelays :: "32 word"
  numInputs :: "32 word"

text \<open>
  An open backend device. The HID library below it is the environment: \<open>sent\<close> records
  every report handed to \<open>BackendDeviceWriteReport\<close>, \<open>write_results\<close> holds the status
  each coming write returns and \<open>read_results\<close> the status and the bytes each coming read
  delivers. A write with no result left succeeds; a read with none left times out.
\<close>

record BackendDevice =
  bd_addr :: nat
  sent :: "byte list list"
  write_results :: "RelaconStatus list"
  read_results :: "(RelaconStatus \<times> byte list) list"

definition BackendDeviceWriteReport ::
  "BackendDevice \<Rightarrow> byte list \<Rightarrow> nat \<Rightarrow> RelaconStatus \<times> BackendDevice" where
  "BackendDeviceWriteReport bd buf len =
     (case write_results bd of
        [] \<Rightarrow> (RELACON_STATUS_SUCCESS, bd\<lparr>sent := sent bd @ [take len buf]\<rparr>)
      | st # rest \<Rightarrow> (st, bd\<lparr>sent := sent bd @ [take len buf], write_results := rest\<rparr>))"

definition BackendDeviceReadReport ::
  "BackendDevice \<Rightarrow> byte list \<Rightarrow> nat \<Rightarrow> int \<Rightarrow> RelaconStatus \<times> byte list \<times> BackendDevice" where
  "BackendDeviceReadReport bd buf len timeoutMs =
     (case read_results bd of
        [] \<Rightarrow> (RELACON_STATUS_ERROR_TIMEOUT, buf, bd)
      | (st, data) # rest \<Rightarrow>
          (st,
           if st = RELACON_STATUS_SUCCESS then write_at 0 (take len data) buf else buf,
           bd\<lparr>read_results := rest\<rparr>))"

text \<open>
  \<open>struct RelaconDevice\<close>. \<open>after_reportBuf\<close> is the memory that follows \<open>reportBuf\<close>
  inside the struct (the bytes of \<open>info\<close>): \<open>strtol\<close> and \<open>strncpy\<close> run into it when
  the seven data bytes hold no terminator.
\<close>

record RelaconDevice =
  dev_addr :: nat
  backendDevice :: BackendDevice
  reportBuf :: "byte list"
  after_reportBuf :: "byte list"
  info :: RelaconDeviceInfo

definition ReadReport :: "RelaconDevice \<Rightarrow> int \<Rightarrow> RelaconStatus \<times> RelaconDevice" where
  "ReadReport dev timeout =
     (let (status, buf, bd) =
            BackendDeviceReadReport (backendDevice dev) (reportBuf dev) REPORT_BUF_LEN timeout
      in (status, dev\<lparr>reportBuf := buf, backendDevice := bd\<rparr>))"

text \<open>
  \<open>ReadNumericResponse\<close>. The second component is the number stored through \<open>value\<close>,
  \<open>None\<close> when nothing is stored.
\<close>

definition ReadNumericResponse ::
  "RelaconDevice \<Rightarrow> int \<Rightarrow> int \<Rightarrow> RelaconStatus \<times> int option \<times> RelaconDevice" where
  "ReadNumericResponse dev mn mx =
     (let (status, dev1) = ReadReport dev DEFAULT_TIMEOUT_MS
      in if status = RELACON_STATUS_SUCCESS then
           if deref (reportBuf dev1) \<noteq> REPORT_ID_CMD
           then (RELACON_STATUS_ERROR_BAD_RESPONSE, None, dev1)
           else
             (let (tmp, endptr) = strtol (drop 1 (reportBuf dev1) @ after_reportBuf dev1)
              in if deref endptr \<noteq> 0 then (RELACON_STATUS_ERROR_BAD_RESPONSE, None, dev1)
                 else if tmp < mn \<or> tmp > mx
                 then (RELACON_STATUS_ERROR_BAD_RESPONSE, None, dev1)
                 else (status, Some tmp, dev1))
         else (status, None, dev1))"

definition WriteReport :: "RelaconDevice \<Rightarrow> RelaconStatus \<times> RelaconDevice" where
  "WriteReport dev =
     (let (status, bd) =
            BackendDeviceWriteReport (backendDevice dev) (reportBuf dev) REPORT_BUF_LEN
      in (status, dev\<lparr>backendDevice := bd\<rparr>))"

text \<open>\<open>WriteFormattedCmd\<close>, given the text its format and arguments expand to.\<close>

definition WriteFormattedCmd :: "RelaconDevice \<Rightarrow> byte list \<Rightarrow> RelaconStatus \<times> RelaconDevice" where
  "WriteFormattedCmd dev text =
     (let (data, res) = vsnprintf (drop 1 (reportBuf dev)) REPORT_DATA_LEN text;
          dev1 = dev\<lparr>reportBuf := take 1 (reportBuf dev) @ data\<rparr>
      in if res < 0 then (RELACON_STATUS_ERROR_INTERNAL, dev1)
         else if res > int REPORT_DATA_LEN then (RELACON_STATUS_ERROR_INTERNAL, dev1)
         else
           (let buf1 = write_at 0 [REPORT_ID_CMD] (reportBuf dev1);
                buf2 = write_at (1 + nat res) (replicate (REPORT_BUF_LEN - nat res - 1) 0) buf1
            in WriteReport (dev1\<lparr>reportBuf := buf2\<rparr>)))"

subsection \<open>Public session operations (\<open>Relacon.c\<close>)\<close>

text \<open>
  A call either returns a status or reads through a \<open>NULL\<close> pointer. A pointer argument
  is \<open>None\<close> when it is \<open>NULL\<close> and otherwise holds what it points to; every operation
  returns what its pointer arguments point to afterwards.
\<close>

datatype 'a call = Returned 'a | NullDereference

definition RelaconDeviceGetInfo ::
  "RelaconDevice option \<Rightarrow> RelaconDeviceInfo option \<Rightarrow>
   RelaconStatus call \<times> RelaconDeviceInfo option" where
  "RelaconDeviceGetInfo dev devInfo =
     (case dev of
        None \<Rightarrow> (NullDereference, devInfo)
      | Some d \<Rightarrow>
          (case devInfo of
             None \<Rightarrow> (NullDereference, devInfo)
           | Some _ \<Rightarrow> (Returned RELACON_STATUS_SUCCESS, Some (info d))))"

definition RelaconDeviceReadInputs ::
  "RelaconDevice option \<Rightarrow> byte option \<Rightarrow>
   RelaconStatus call \<times> RelaconDevice option \<times> byte option" where
  "RelaconDeviceReadInputs dev val =
     (case dev of
        None \<Rightarrow> (Returned RELACON_STATUS_ERROR_ARGUMENT_NULL, dev, val)
      | Some d \<Rightarrow>
          (case val of
             None \<Rightarrow> (Returned RELACON_STATUS_ERROR_ARGUMENT_NULL, dev, val)
           | Some _ \<Rightarrow>
               (let (status, d1) = WriteFormattedCmd d (ascii ''PI'')
                in if status = RELACON_STATUS_SUCCESS then
                     (let (status2, tmp, d2) = ReadNumericResponse d1 0 UINT8_MAX
                      in (Returned status2, Some d2,
                          case tmp of None \<Rightarrow> val | Some v \<Rightarrow> Some (word_of_int v)))
                   else (Returned status, Some d1, val))))"

definition RelaconDeviceSingleRelayWrite ::
  "RelaconDevice option \<Rightarrow> byte \<Rightarrow> bool \<Rightarrow> RelaconStatus call \<times> RelaconDevice option" where
  "RelaconDeviceSingleRelayWrite dev relay assert =
     (case dev of
        None \<Rightarrow> (Returned RELACON_STATUS_ERROR_ARGUMENT_NULL, dev)
      | Some d \<Rightarrow>
          if ucast relay \<ge> numRelays (info d)
          then (Returned RELACON_STATUS_ERROR_ARGUMENT_NULL, dev)
          else
            (let (status, d1) =
                   WriteFormattedCmd d
                     ((if assert then ascii ''SK'' else ascii ''RK'') @ fmt_d (uint relay))
             in (Returned status, Some d1)))"

definition RelaconDeviceSingleRelayRead ::
  "RelaconDevice option \<Rightarrow> byte \<Rightarrow> bool option \<Rightarrow>
   RelaconStatus call \<times> RelaconDevice option \<times> bool option" where
  "RelaconDeviceSingleRelayRead dev relay isAsserted =
     (case dev of
        None \<Rightarrow> (Returned RELACON_STATUS_ERROR_ARGUMENT_NULL, dev, isAsserted)
      | Some d \<Rightarrow>
          if ucast relay \<ge> numRelays (info d)
          then (Returned RELACON_STATUS_ERROR_ARGUMENT_NULL, dev, isAsserted)
          else
            (let (status, d1) = WriteFormattedCmd d (ascii ''RPK'' @ fmt_d (uint relay))
             in if status = RELACON_STATUS_SUCCESS then
                  (let (status2, tmp, d2) = ReadNumericResponse d1 0 1
                   in case tmp of
                        None \<Rightarrow> (Returned status2, Some d2, isAsserted)
                      | Some v \<Rightarrow>
                          (case isAsserted of
                             None \<Rightarrow> (NullDereference, Some d2, isAsserted)
                           | Some _ \<Rightarrow> (Returned status2, Some d2, Some (v \<noteq> 0))))
                else (Returned status, Some d1, isAsserted)))"

definition RelaconDeviceRelaysWrite ::
  "RelaconDevice option \<Rightarrow> byte \<Rightarrow> RelaconStatus call \<times> RelaconDevice option" where
  "RelaconDeviceRelaysWrite dev val =
     (case dev of
        None \<Rightarrow> (Returned RELACON_STATUS_ERROR_ARGUMENT_NULL, dev)
      | Some d \<Rightarrow>
          (let (status, d1) = WriteFormattedCmd d (ascii ''MK'' @ fmt_03u (unat val))
           in (Returned status, Some d1)))"

definition RelaconDeviceRelaysRead ::
  "RelaconDevice option \<Rightarrow> byte option \<Rightarrow>
   RelaconStatus call \<times> RelaconDevice option \<times> byte option" where
  "RelaconDeviceRelaysRead dev val =
     (case dev of
        None \<Rightarrow> (Returned RELACON_STATUS_ERROR_ARGUMENT_NULL, dev, val)
      | Some d \<Rightarrow>
          (let (status, d1) = WriteFormattedCmd d (ascii ''PK'')
           in if status = RELACON_STATUS_SUCCESS then
                (let (status2, tmp, d2) = ReadNumericResponse d1 0 UINT8_MAX
                 in case tmp of
                      None \<Rightarrow> (Returned status2, Some d2, val)
                    | Some v \<Rightarrow>
                        (case val of
                           None \<Rightarrow> (NullDereference, Some d2, val)
                         | Some _ \<Rightarrow> (Returned status2, Some d2, Some (word_of_int v))))
              else (Returned status, Some d1, val)))"

definition RelaconDeviceEventCounterGet ::
  "RelaconDevice option \<Rightarrow> byte \<Rightarrow> bool \<Rightarrow> 16 word option \<Rightarrow>
   RelaconStatus call \<times> RelaconDevice option \<times> 16 word option" where
  "RelaconDeviceEventCounterGet dev counter clear val =
     (case dev of
        None \<Rightarrow> (Returned RELACON_STATUS_ERROR_ARGUMENT_NULL, dev, val)
      | Some d \<Rightarrow>
          (case val of
             None \<Rightarrow> (Returned RELACON_STATUS_ERROR_ARGUMENT_NULL, dev, val)
           | Some _ \<Rightarrow>
               if ucast counter \<ge> numInputs (info d)
               then (Returned RELACON_STATUS_ERROR_INVALID_PARAM, dev, val)
               else
                 (let (status, d1) =
                        WriteFormattedCmd d
                          (ascii ''R'' @ (if clear then ascii ''C'' else ascii ''E'')
                           @ fmt_d (uint counter))
                  in if status = RELACON_STATUS_SUCCESS then
                       (let (status2, tmp, d2) = ReadNumericResponse d1 0 UINT16_MAX
                        in (Returned status2, Some d2,
                            case tmp of
                              None \<Rightarrow> val
                            | Some v \<Rightarrow> Some (ucast (word_of_int v :: 8 word))))
                     else (Returned status, Some d1, val))))"

text \<open>\<open>enum RelaconDebounceConfig\<close> and \<open>enum RelaconWatchdogConfig\<close>, by their values.\<close>

definition RELACON_DEBOUNCE_CONFIG_10MS :: int where "RELACON_DEBOUNCE_CONFIG_10MS = 0"
definition RELACON_DEBOUNCE_CONFIG_1MS :: int where "RELACON_DEBOUNCE_CONFIG_1MS = 1"
definition RELACON_DEBOUNCE_CONFIG_100US :: int where "RELACON_DEBOUNCE_CONFIG_100US = 2"
definition RELACON_WATCHDOG_CONFIG_OFF :: int where "RELACON_WATCHDOG_CONFIG_OFF = 0"
definition RELACON_WATCHDOG_CONFIG_1SEC :: int where "RELACON_WATCHDOG_CONFIG_1SEC = 1"
definition RELACON_WATCHDOG_CONFIG_10SEC :: int where "RELACON_WATCHDOG_CONFIG_10SEC = 2"
definition RELACON_WATCHDOG_CONFIG_1MIN :: int where "RELACON_WATCHDOG_CONFIG_1MIN = 3"

definition RelaconDeviceEventCounterDebounceSet ::
  "RelaconDevice option \<Rightarrow> int \<Rightarrow> RelaconStatus call \<times> RelaconDevice option" where
  "RelaconDeviceEventCounterDebounceSet dev config =
     (case dev of
        None \<Rightarrow> (Returned RELACON_STATUS_ERROR_ARGUMENT_NULL, dev)
      | Some d \<Rightarrow>
          if config < RELACON_DEBOUNCE_CONFIG_10MS \<or> config > RELACON_DEBOUNCE_CONFIG_100US
          then (Returned RELACON_STATUS_ERROR_INVALID_PARAM, dev)
          else
            (let (status, d1) = WriteFormattedCmd d (ascii ''DB'' @ fmt_d config)
             in (Returned status, Some d1)))"

definition RelaconDeviceEventCounterDebounceGet ::
  "RelaconDevice option \<Rightarrow> int option \<Rightarrow>
   RelaconStatus call \<times> RelaconDevice option \<times> int option" where
  "RelaconDeviceEventCounterDebounceGet dev config =
     (case dev of
        None \<Rightarrow> (Returned RELACON_STATUS_ERROR_ARGUMENT_NULL, dev, config)
      | Some d \<Rightarrow>
          (case config of
             None \<Rightarrow> (Returned RELACON_STATUS_ERROR_ARGUMENT_NULL, dev, config)
           | Some _ \<Rightarrow>
               (let (status, d1) = WriteFormattedCmd d (ascii ''DB'')
                in if status = RELACON_STATUS_SUCCESS then
                     (let (status2, tmp, d2) =
                            ReadNumericResponse d1 RELACON_DEBOUNCE_CONFIG_10MS
                              RELACON_DEBOUNCE_CONFIG_100US
                      in (Returned status2, Some d2,
                          case tmp of None \<Rightarrow> config | Some v \<Rightarrow> Some v))
                   else (Returned status, Some d1, config))))"

definition RelaconDeviceWatchdogSet ::
  "RelaconDevice option \<Rightarrow> int \<Rightarrow> RelaconStatus call \<times> RelaconDevice option" where
  "RelaconDeviceWatchdogSet dev config =
     (case dev of
        None \<Rightarrow> (Returned RELACON_STATUS_ERROR_ARGUMENT_NULL, dev)
      | Some d \<Rightarrow>
          if config < RELACON_WATCHDOG_CONFIG_OFF \<or> config > RELACON_WATCHDOG_CONFIG_1MIN
          then (Returned RELACON_STATUS_ERROR_INVALID_PARAM, dev)
          else
            (let (status, d1) = WriteFormattedCmd d (ascii ''WD'' @ fmt_d config)
             in (Returned status, Some d1)))"

definition RelaconDeviceWatchdogGet ::
  "RelaconDevice option \<Rightarrow> int option \<Rightarrow>
   RelaconStatus call \<times> RelaconDevice option \<times> int option" where
  "RelaconDeviceWatchdogGet dev config =
     (case dev of
        None \<Rightarrow> (Returned RELACON_STATUS_ERROR_ARGUMENT_NULL, dev, config)
      | Some d \<Rightarrow>
          (case config of
             None \<Rightarrow> (Returned RELACON_STATUS_ERROR_ARGUMENT_NULL, dev, config)
           | Some _ \<Rightarrow>
               (let (status, d1) = WriteFormattedCmd d (ascii ''WD'')
                in if status = RELACON_STATUS_SUCCESS then
                     (let (status2, tmp, d2) =
                            ReadNumericResponse d1 RELACON_WATCHDOG_CONFIG_OFF
                              RELACON_WATCHDOG_CONFIG_1MIN
                      in (Returned status2, Some d2,
                          case tmp of None \<Rightarrow> config | Some v \<Rightarrow> Some v))
                   else (Returned status, Some d1, config))))"

definition RelaconDeviceRawWrite ::
  "RelaconDevice option \<Rightarrow> byte list option \<Rightarrow> RelaconStatus call \<times> RelaconDevice option" where
  "RelaconDeviceRawWrite dev cmd =
     (case dev of
        None \<Rightarrow> (Returned RELACON_STATUS_ERROR_ARGUMENT_NULL, dev)
      | Some d \<Rightarrow>
          (case cmd of
             None \<Rightarrow> (Returned RELACON_STATUS_ERROR_ARGUMENT_NULL, dev)
           | Some c \<Rightarrow>
               if strlen c > REPORT_DATA_LEN
               then (Returned RELACON_STATUS_ERROR_INVALID_PARAM, dev)
               else
                 (let buf1 = write_at 0 [REPORT_ID_CMD] (reportBuf d);
                      buf2 = take 1 buf1 @ strncpy (drop 1 buf1) c REPORT_DATA_LEN;
                      (status, d1) = WriteReport (d\<lparr>reportBuf := buf2\<rparr>)
                  in (Returned status, Some d1))))"

definition RelaconDeviceRawRead ::
  "RelaconDevice option \<Rightarrow> byte list option \<Rightarrow> 32 word \<Rightarrow> int \<Rightarrow>
   RelaconStatus call \<times> RelaconDevice option \<times> byte list option" where
  "RelaconDeviceRawRead dev buf len timeout =
     (case dev of
        None \<Rightarrow> (Returned RELACON_STATUS_ERROR_ARGUMENT_NULL, dev, buf)
      | Some d \<Rightarrow>
          (case buf of
             None \<Rightarrow> (Returned RELACON_STATUS_ERROR_ARGUMENT_NULL, dev, buf)
           | Some b \<Rightarrow>
               (let (status, d1) = ReadReport d timeout
                in if status = RELACON_STATUS_SUCCESS
                   then (Returned status, Some d1,
                         Some (strncpy b (drop 1 (reportBuf d1) @ after_reportBuf d1) (unat len)))
                   else (Returned status, Some d1, buf))))"

subsection \<open>The heap\<close>

text \<open>
  Blocks obtained from \<open>malloc\<close>. A string block holds the characters before the
  terminator; the fields of a struct are carried by the values of the model, so a struct
  block only records that the struct is allocated. \<open>alloc_ok\<close> is the environment:
  whether each coming allocation succeeds (one without an entry left does). Addresses
  are handed out in increasing order.
\<close>

datatype block = StringBlock "byte list" | StructBlock

record heap =
  live :: "(nat \<times> block) list"
  next_addr :: nat
  alloc_ok :: "bool list"

definition malloc :: "block \<Rightarrow> heap \<Rightarrow> nat option \<times> heap" where
  "malloc blk h =
     (if alloc_ok h \<noteq> [] \<and> \<not> hd (alloc_ok h)
      then (None, h\<lparr>alloc_ok := tl (alloc_ok h)\<rparr>)
      else (Some (next_addr h),
            h\<lparr>live := live h @ [(next_addr h, blk)],
              next_addr := Suc (next_addr h),
              alloc_ok := tl (alloc_ok h)\<rparr>))"

definition free :: "nat option \<Rightarrow> heap \<Rightarrow> heap" where
  "free p h =
     (case p of
        None \<Rightarrow> h
      | Some a \<Rightarrow> h\<lparr>live := filter (\<lambda>x. fst x \<noteq> a) (live h)\<rparr>)"

definition is_live :: "heap \<Rightarrow> nat \<Rightarrow> bool" where
  "is_live h a = (map_of (live h) a \<noteq> None)"

text \<open>The string a \<open>char\<close> pointer points to, \<open>None\<close> where it points to none.\<close>

definition string_at :: "heap \<Rightarrow> nat option \<Rightarrow> byte list option" where
  "string_at h p =
     (case p of
        None \<Rightarrow> None
      | Some a \<Rightarrow>
          (case map_of (live h) a of
             Some (StringBlock s) \<Rightarrow> Some s
           | _ \<Rightarrow> None))"

definition strdup :: "nat option \<Rightarrow> heap \<Rightarrow> nat option \<times> heap" where
  "strdup p h =
     malloc (StringBlock (case string_at h p of None \<Rightarrow> [] | Some s \<Rightarrow> s)) h"

subsection \<open>The platform's devices and the device lists of the backends\<close>

text \<open>
  What the HID library reports for one attached device, and how the device will react
  to the calls both backends make: whether it can be opened while the list is built and
  when a session is opened, whether its interface can be claimed, what fetching each
  string descriptor yields, and the outcomes of the reports exchanged once it is open.
\<close>

datatype descriptor = NoDescriptor | FetchFails | Descriptor "nat list"

record usb_device =
  idVendor :: "16 word"
  idProduct :: "16 word"
  usage :: "16 word"
  probe_opens :: bool
  session_opens :: bool
  claim_ok :: bool
  manufacturer_string :: descriptor
  product_string :: descriptor
  serial_number_string :: descriptor
  transport_writes :: "RelaconStatus list"
  transport_reads :: "(RelaconStatus \<times> byte list) list"

text \<open>
  The transport chosen when the program is built: the HIDAPI one, with or without
  \<open>FILTER_HID_COLLECTION_USAGE\<close>, or the libusb one.
\<close>

datatype backend_kind = Hidapi bool | Libusb

record BackendDeviceListEntry =
  entry_addr :: nat
  devInfo :: RelaconDeviceInfo
  device :: usb_device

text \<open>
  \<open>listStart\<close> is the chain of entries from the head of the list, \<open>listCurrent\<close> the
  part of the chain from the cursor on.
\<close>

record BackendDeviceList =
  list_addr :: nat
  listStart :: "BackendDeviceListEntry list"
  listCurrent :: "BackendDeviceListEntry list"

text \<open>
  \<open>DeviceInfoFree\<close> of \<open>BackendLibusb.c\<close>; \<open>DeviceInfoDestroy\<close> of \<open>BackendHidapi.c\<close> is
  the same three calls. \<open>DeviceListEntriesDestroy\<close> is the same loop in both files.
\<close>

definition DeviceInfoFree :: "RelaconDeviceInfo \<Rightarrow> heap \<Rightarrow> heap" where
  "DeviceInfoFree di h = free (serialNum di) (free (product di) (free (manufacturer di) h))"

fun DeviceListEntriesDestroy :: "BackendDeviceListEntry list \<Rightarrow> heap \<Rightarrow> heap" where
  "DeviceListEntriesDestroy [] h = h"
| "DeviceListEntriesDestroy (entry # rest) h =
     DeviceListEntriesDestroy rest (free (Some (entry_addr entry)) (DeviceInfoFree (devInfo entry) h))"

subsubsection \<open>\<open>BackendHidapi.c\<close>\<close>

text \<open>
  \<open>FetchString\<close>. The library stores at most 63 wide characters and a terminator in
  \<open>strBuf\<close>; \<open>wcstombs\<close> runs in the C locale, where a wide character converts when it
  is below 128. The second component is the pointer stored through \<open>buf\<close>, \<open>None\<close> when
  nothing is stored.
\<close>

definition FetchString :: "descriptor \<Rightarrow> heap \<Rightarrow> RelaconStatus \<times> nat option option \<times> heap" where
  "FetchString desc h =
     (case desc of
        Descriptor ws \<Rightarrow>
          (let strBuf = take 63 ws;
               (asciiStrBuf, h1) =
                  malloc (StringBlock (map of_nat (takeWhile (\<lambda>w. w < 128) strBuf))) h
           in case asciiStrBuf of
                None \<Rightarrow> (RELACON_STATUS_ERROR_OUT_OF_MEMORY, None, h1)
              | Some a \<Rightarrow>
                  if list_ex (\<lambda>w. \<not> w < 128) strBuf
                  then (RELACON_STATUS_ERROR_INTERNAL, None, h1)
                  else (RELACON_STATUS_SUCCESS, Some (Some a), h1))
      | _ \<Rightarrow> (RELACON_STATUS_SUCCESS, Some None, h))"

definition IsPotentialRelaconDevice :: "bool \<Rightarrow> usb_device \<Rightarrow> bool" where
  "IsPotentialRelaconDevice filter_usage d = (if filter_usage then usage d = 0x01 else True)"

definition stored :: "nat option option \<Rightarrow> nat option \<Rightarrow> nat option" where
  "stored assignment old = (case assignment of None \<Rightarrow> old | Some p \<Rightarrow> p)"

definition DeviceInfoPopulate ::
  "nat \<Rightarrow> usb_device \<Rightarrow> DeviceCapabilities \<Rightarrow> heap \<Rightarrow> RelaconDeviceInfo \<times> heap" where
  "DeviceInfoPopulate listEntry d caps h =
     (let di = \<lparr>vid = idVendor d, pid = idProduct d, serialNum = None, manufacturer = None,
                product = None, handle = Some listEntry,
                numRelays = DeviceCapabilities.numRelays caps,
                numInputs = DeviceCapabilities.numInputs caps\<rparr>
      in if \<not> probe_opens d then (di, h)
         else
           (let (s1, m, h1) = FetchString (manufacturer_string d) h;
                (s2, p, h2) = FetchString (product_string d) h1;
                (s3, sn, h3) = FetchString (serial_number_string d) h2
            in (di\<lparr>manufacturer := stored m None, product := stored p None,
                    serialNum := stored sn None\<rparr>, h3)))"

fun DeviceListEntriesCreate_hidapi_loop ::
  "bool \<Rightarrow> usb_device list \<Rightarrow> BackendDeviceListEntry list \<Rightarrow> heap \<Rightarrow>
   RelaconStatus \<times> BackendDeviceListEntry list \<times> heap" where
  "DeviceListEntriesCreate_hidapi_loop flt [] entries h = (RELACON_STATUS_SUCCESS, entries, h)"
| "DeviceListEntriesCreate_hidapi_loop flt (d # rest) entries h =
     (case DeviceCapabilitiesQuery (idVendor d) (idProduct d) of
        None \<Rightarrow> DeviceListEntriesCreate_hidapi_loop flt rest entries h
      | Some caps \<Rightarrow>
          if \<not> IsPotentialRelaconDevice flt d
          then DeviceListEntriesCreate_hidapi_loop flt rest entries h
          else
            (case malloc StructBlock h of
               (None, h1) \<Rightarrow> (RELACON_STATUS_ERROR_OUT_OF_MEMORY, entries, h1)
             | (Some a, h1) \<Rightarrow>
                 (let (di, h2) = DeviceInfoPopulate a d caps h1
                  in DeviceListEntriesCreate_hidapi_loop flt rest
                       (entries @ [\<lparr>entry_addr = a, devInfo = di, device = d\<rparr>]) h2)))"

text \<open>
  \<open>DeviceListEntriesCreate\<close> of \<open>BackendHidapi.c\<close>. The entries returned are the chain
  \<open>listStart\<close> points to afterwards, also when they have been freed.
\<close>

definition DeviceListEntriesCreate_hidapi ::
  "bool \<Rightarrow> usb_device list \<Rightarrow> heap \<Rightarrow> RelaconStatus \<times> BackendDeviceListEntry list \<times> heap" where
  "DeviceListEntriesCreate_hidapi flt hidapiList h =
     (let (status, entries, h1) = DeviceListEntriesCreate_hidapi_loop flt hidapiList [] h
      in if status \<noteq> RELACON_STATUS_SUCCESS
         then (status, entries, DeviceListEntriesDestroy entries h1)
         else (status, entries, h1))"

text \<open>\<open>hid_enumerate\<close> returns \<open>NULL\<close> on failure and when it finds no device.\<close>

definition BackendDeviceListCreate_hidapi ::
  "bool \<Rightarrow> usb_device list option \<Rightarrow> heap \<Rightarrow> RelaconStatus \<times> BackendDeviceList option \<times> heap" where
  "BackendDeviceListCreate_hidapi flt enumeration h =
     (case malloc StructBlock h of
        (None, h1) \<Rightarrow> (RELACON_STATUS_ERROR_OUT_OF_MEMORY, None, h1)
      | (Some a, h1) \<Rightarrow>
          (case enumeration of
             None \<Rightarrow> (RELACON_STATUS_ERROR_INTERNAL, None, free (Some a) h1)
           | Some hidapiList \<Rightarrow>
               if hidapiList = [] then (RELACON_STATUS_ERROR_INTERNAL, None, free (Some a) h1)
               else
                 (let (status, entries, h2) = DeviceListEntriesCreate_hidapi flt hidapiList h1
                  in if status \<noteq> RELACON_STATUS_SUCCESS then (status, None, free (Some a) h2)
                     else (status,
                           Some \<lparr>list_addr = a, listStart = entries, listCurrent = entries\<rparr>,
                           h2))))"

subsubsection \<open>\<open>BackendLibusb.c\<close>\<close>

text \<open>
  \<open>FetchStringDescriptor\<close>. A device without the descriptor has string index 0.
  \<open>libusb_get_string_descriptor_ascii\<close> stores at most 127 characters and puts a question
  mark for every character from 128 on.
\<close>

definition FetchStringDescriptor ::
  "descriptor \<Rightarrow> heap \<Rightarrow> RelaconStatus \<times> nat option option \<times> heap" where
  "FetchStringDescriptor desc h =
     (if desc = NoDescriptor then (RELACON_STATUS_ERROR_NO_ENTRY, None, h)
      else
        (let (newString, h1) =
               malloc (StringBlock
                 (case desc of
                    Descriptor ws \<Rightarrow> map (\<lambda>w. if w < 128 then of_nat w else 0x3f) (take 127 ws)
                  | _ \<Rightarrow> [])) h
         in case newString of
              None \<Rightarrow> (RELACON_STATUS_ERROR_OUT_OF_MEMORY, None, h1)
            | Some a \<Rightarrow>
                if desc = FetchFails
                then (RELACON_STATUS_ERROR_INTERNAL, None, free (Some a) h1)
                else (RELACON_STATUS_SUCCESS, Some (Some a), h1)))"

text \<open>
  One round of the loop over \<open>stringFetchInfos\<close> in \<open>PopulateDeviceInfoStrings\<close>; \<open>upd\<close>
  stores into the field \<open>dest\<close> points to.
\<close>

definition fetch_round ::
  "(nat option \<Rightarrow> RelaconDeviceInfo \<Rightarrow> RelaconDeviceInfo) \<Rightarrow> descriptor \<Rightarrow>
   RelaconStatus \<times> RelaconDeviceInfo \<times> heap \<Rightarrow> RelaconStatus \<times> RelaconDeviceInfo \<times> heap" where
  "fetch_round upd desc state =
     (let (status, di, h) = state
      in if status \<noteq> RELACON_STATUS_SUCCESS then (status, di, h)
         else
           (let (fetchStatus, assignment, h1) = FetchStringDescriptor desc h;
                di1 = (case assignment of None \<Rightarrow> di | Some p \<Rightarrow> upd p di)
            in if fetchStatus \<noteq> RELACON_STATUS_SUCCESS \<and> fetchStatus \<noteq> RELACON_STATUS_ERROR_NO_ENTRY
               then (fetchStatus, di1, DeviceInfoFree di1 h1)
               else (status, di1, h1)))"

definition PopulateDeviceInfoStrings ::
  "usb_device \<Rightarrow> RelaconDeviceInfo \<Rightarrow> heap \<Rightarrow> RelaconStatus \<times> RelaconDeviceInfo \<times> heap" where
  "PopulateDeviceInfoStrings d di h =
     (if \<not> probe_opens d then (RELACON_STATUS_ERROR_INTERNAL, di, h)
      else
        fetch_round (\<lambda>p x. x\<lparr>serialNum := p\<rparr>) (serial_number_string d)
          (fetch_round (\<lambda>p x. x\<lparr>product := p\<rparr>) (product_string d)
            (fetch_round (\<lambda>p x. x\<lparr>manufacturer := p\<rparr>) (manufacturer_string d)
              (RELACON_STATUS_SUCCESS, di, h))))"

definition DeviceListEntryCreate ::
  "usb_device \<Rightarrow> DeviceCapabilities \<Rightarrow> heap \<Rightarrow>
   RelaconStatus \<times> BackendDeviceListEntry option \<times> heap" where
  "DeviceListEntryCreate d caps h =
     (case malloc StructBlock h of
        (None, h1) \<Rightarrow> (RELACON_STATUS_ERROR_OUT_OF_MEMORY, None, h1)
      | (Some a, h1) \<Rightarrow>
          (let di = \<lparr>vid = idVendor d, pid = idProduct d, serialNum = None, manufacturer = None,
                     product = None, handle = Some a,
                     numRelays = DeviceCapabilities.numRelays caps,
                     numInputs = DeviceCapabilities.numInputs caps\<rparr>;
               (status, di1, h2) = PopulateDeviceInfoStrings d di h1
           in if status \<noteq> RELACON_STATUS_SUCCESS then (status, None, free (Some a) h2)
              else (status, Some \<lparr>entry_addr = a, devInfo = di1, device = d\<rparr>, h2)))"

fun DeviceListEntriesCreate_libusb ::
  "usb_device list \<Rightarrow> BackendDeviceListEntry list \<Rightarrow> heap \<Rightarrow>
   RelaconStatus \<times> BackendDeviceListEntry list \<times> heap" where
  "DeviceListEntriesCreate_libusb [] entries h = (RELACON_STATUS_SUCCESS, entries, h)"
| "DeviceListEntriesCreate_libusb (d # rest) entries h =
     (case DeviceCapabilitiesQuery (idVendor d) (idProduct d) of
        None \<Rightarrow> DeviceListEntriesCreate_libusb rest entries h
      | Some caps \<Rightarrow>
          (case DeviceListEntryCreate d caps h of
             (status, Some entry, h1) \<Rightarrow> DeviceListEntriesCreate_libusb rest (entries @ [entry]) h1
           | (status, None, h1) \<Rightarrow>
               if status = RELACON_STATUS_ERROR_OUT_OF_MEMORY
               then (status, entries, DeviceListEntriesDestroy entries h1)
               else DeviceListEntriesCreate_libusb rest entries h1))"

text \<open>
  \<open>BackendDeviceListCreate\<close> of \<open>BackendLibusb.c\<close>; the enumeration is \<open>None\<close> when
  \<open>libusb_get_device_list\<close> fails. When the entries cannot be created the list struct is
  not freed.
\<close>

definition BackendDeviceListCreate_libusb ::
  "usb_device list option \<Rightarrow> heap \<Rightarrow> RelaconStatus \<times> BackendDeviceList option \<times> heap" where
  "BackendDeviceListCreate_libusb enumeration h =
     (case malloc StructBlock h of
        (None, h1) \<Rightarrow> (RELACON_STATUS_ERROR_OUT_OF_MEMORY, None, h1)
      | (Some a, h1) \<Rightarrow>
          (case enumeration of
             None \<Rightarrow> (RELACON_STATUS_ERROR_INTERNAL, None, free (Some a) h1)
           | Some deviceList \<Rightarrow>
               (let (status, entries, h2) = DeviceListEntriesCreate_libusb deviceList [] h1
                in if status \<noteq> RELACON_STATUS_SUCCESS then (status, None, h2)
                   else (status,
                         Some \<lparr>list_addr = a, listStart = entries, listCurrent = entries\<rparr>,
                         h2))))"

subsubsection \<open>The backend contract (\<open>Backend.h\<close>), for either transport\<close>

definition BackendDeviceListCreate ::
  "backend_kind \<Rightarrow> usb_device list option \<Rightarrow> heap \<Rightarrow>
   RelaconStatus \<times> BackendDeviceList option \<times> heap" where
  "BackendDeviceListCreate bk enumeration h =
     (case bk of
        Hidapi flt \<Rightarrow> BackendDeviceListCreate_hidapi flt enumeration h
      | Libusb \<Rightarrow> BackendDeviceListCreate_libusb enumeration h)"

definition BackendDeviceListDestroy :: "BackendDeviceList \<Rightarrow> heap \<Rightarrow> RelaconStatus \<times> heap" where
  "BackendDeviceListDestroy devList h =
     (RELACON_STATUS_SUCCESS,
      free (Some (list_addr devList)) (DeviceListEntriesDestroy (listStart devList) h))"

definition BackendDeviceListGetNext ::
  "BackendDeviceList \<Rightarrow> RelaconDeviceInfo option \<times> BackendDeviceList" where
  "BackendDeviceListGetNext devList =
     (case listCurrent devList of
        [] \<Rightarrow> (None, devList)
      | entry # rest \<Rightarrow> (Some (devInfo entry), devList\<lparr>listCurrent := rest\<rparr>))"

text \<open>
  \<open>BackendDeviceOpen\<close>. The handle is the address of an entry of the list; a handle that
  is the address of no entry breaks the precondition of \<open>Backend.h\<close>, and the model lets
  the open fail then. The HIDAPI transport does not free the device struct when
  \<open>hid_open_path\<close> fails, nor does the libusb one when the interface cannot be claimed.
\<close>

definition BackendDeviceOpen ::
  "backend_kind \<Rightarrow> BackendDeviceList \<Rightarrow> nat option \<Rightarrow> heap \<Rightarrow>
   RelaconStatus \<times> BackendDevice option \<times> heap" where
  "BackendDeviceOpen bk devList hdl h =
     (case find (\<lambda>e. Some (entry_addr e) = hdl) (listStart devList) of
        None \<Rightarrow> (RELACON_STATUS_ERROR_INTERNAL, None, h)
      | Some listEntry \<Rightarrow>
          (case malloc StructBlock h of
             (None, h1) \<Rightarrow> (RELACON_STATUS_ERROR_OUT_OF_MEMORY, None, h1)
           | (Some a, h1) \<Rightarrow>
               if \<not> session_opens (device listEntry)
               then (RELACON_STATUS_ERROR_INTERNAL, None,
                     case bk of Hidapi flt \<Rightarrow> h1 | Libusb \<Rightarrow> free (Some a) h1)
               else if bk = Libusb \<and> \<not> claim_ok (device listEntry)
               then (RELACON_STATUS_ERROR_INTERNAL, None, h1)
               else (RELACON_STATUS_SUCCESS,
                     Some \<lparr>bd_addr = a, sent = [],
                           write_results = transport_writes (device listEntry),
                           read_results = transport_reads (device listEntry)\<rparr>,
                     h1)))"

definition BackendDeviceClose :: "BackendDevice \<Rightarrow> heap \<Rightarrow> RelaconStatus \<times> heap" where
  "BackendDeviceClose bd h = (RELACON_STATUS_SUCCESS, free (Some (bd_addr bd)) h)"

subsection \<open>Listing, opening and closing (\<open>Relacon.c\<close>)\<close>

record RelaconDeviceList =
  rdl_addr :: nat
  backendDeviceList :: BackendDeviceList

definition RelaconDeviceListCreate ::
  "backend_kind \<Rightarrow> usb_device list option \<Rightarrow> heap \<Rightarrow> RelaconDeviceList option \<times> heap" where
  "RelaconDeviceListCreate bk enumeration h =
     (case malloc StructBlock h of
        (None, h1) \<Rightarrow> (None, h1)
      | (Some a, h1) \<Rightarrow>
          (case BackendDeviceListCreate bk enumeration h1 of
             (status, Some bl, h2) \<Rightarrow>
               if status \<noteq> RELACON_STATUS_SUCCESS then (None, free (Some a) h2)
               else (Some \<lparr>rdl_addr = a, backendDeviceList = bl\<rparr>, h2)
           | (status, None, h2) \<Rightarrow> (None, free (Some a) h2)))"

definition RelaconDeviceListDestroy :: "RelaconDeviceList \<Rightarrow> heap \<Rightarrow> RelaconStatus \<times> heap" where
  "RelaconDeviceListDestroy devList h =
     (let (status, h1) = BackendDeviceListDestroy (backendDeviceList devList) h
      in (status, free (Some (rdl_addr devList)) h1))"

text \<open>
  The filter of \<open>FindFirstMatchingDevice\<close>. The serial number asked for is the memory at
  the caller's pointer; \<open>strcmp\<close> compares it with the string the candidate's pointer
  points to in the heap.
\<close>

definition candidate_matches ::
  "16 word \<Rightarrow> 16 word \<Rightarrow> byte list option \<Rightarrow> heap \<Rightarrow> RelaconDeviceInfo \<Rightarrow> bool" where
  "candidate_matches v p serial h candidate =
     ((v = 0 \<or> v = vid candidate) \<and>
      (p = 0 \<or> p = pid candidate) \<and>
      (case serial of
         None \<Rightarrow> True
       | Some s \<Rightarrow>
           serialNum candidate \<noteq> None \<and>
           string_at h (serialNum candidate) = Some (cstr s)))"

function FindFirstMatchingDevice ::
  "BackendDeviceList \<Rightarrow> 16 word \<Rightarrow> 16 word \<Rightarrow> byte list option \<Rightarrow> heap \<Rightarrow>
   RelaconDeviceInfo option \<times> BackendDeviceList" where
  "FindFirstMatchingDevice devList v p serial h =
     (case BackendDeviceListGetNext devList of
        (None, devList1) \<Rightarrow> (None, devList1)
      | (Some candidate, devList1) \<Rightarrow>
          if candidate_matches v p serial h candidate then (Some candidate, devList1)
          else FindFirstMatchingDevice devList1 v p serial h)"
  by pat_completeness auto
termination
  by (relation "measure (\<lambda>(devList, v, p, serial, h). length (listCurrent devList))")
     (auto simp: BackendDeviceListGetNext_def split: list.splits)

declare FindFirstMatchingDevice.simps [simp del]

text \<open>
  The statement \<open>if (devInfo->field != NULL) dev->info.field = strdup(devInfo->field)\<close>;
  the field keeps the copied pointer \<open>NULL\<close> otherwise.
\<close>

definition copy_if_set :: "nat option \<Rightarrow> heap \<Rightarrow> nat option \<times> heap" where
  "copy_if_set p h = (if p \<noteq> None then strdup p h else (p, h))"

text \<open>
  \<open>RelaconDeviceOpen\<close>. \<open>raw\<close> is what the freshly allocated struct holds where the code
  stores nothing: the report buffer and the memory after it.
\<close>

definition RelaconDeviceOpen ::
  "backend_kind \<Rightarrow> usb_device list option \<Rightarrow> 16 word \<Rightarrow> 16 word \<Rightarrow> byte list option \<Rightarrow>
   byte list \<times> byte list \<Rightarrow> heap \<Rightarrow> RelaconDevice option \<times> heap" where
  "RelaconDeviceOpen bk enumeration v p serial raw h =
     (case RelaconDeviceListCreate bk enumeration h of
        (None, h1) \<Rightarrow> (None, h1)
      | (Some devList, h1) \<Rightarrow>
          (let (found, bl) = FindFirstMatchingDevice (backendDeviceList devList) v p serial h1;
               devList1 = devList\<lparr>backendDeviceList := bl\<rparr>;
               (dev, h2) =
                 (case found of
                    None \<Rightarrow> (None, h1)
                  | Some di \<Rightarrow>
                      (case BackendDeviceOpen bk bl (handle di) h1 of
                         (status, None, h3) \<Rightarrow> (None, h3)
                       | (status, Some bd, h3) \<Rightarrow>
                           (case malloc StructBlock h3 of
                              (None, h4) \<Rightarrow> (None, snd (BackendDeviceClose bd h4))
                            | (Some a, h4) \<Rightarrow>
                                (let (pr, h5) = copy_if_set (product di) h4;
                                     (mf, h6) = copy_if_set (manufacturer di) h5;
                                     (sn, h7) = copy_if_set (serialNum di) h6
                                 in (Some \<lparr>dev_addr = a, backendDevice = bd,
                                           reportBuf = fst raw, after_reportBuf = snd raw,
                                           info = di\<lparr>product := pr, manufacturer := mf,
                                                     serialNum := sn\<rparr>\<rparr>,
                                     h7)))))
           in (dev, snd (RelaconDeviceListDestroy devList1 h2))))"

definition RelaconDeviceClose :: "RelaconDevice \<Rightarrow> heap \<Rightarrow> RelaconStatus \<times> heap" where
  "RelaconDeviceClose dev h =
     (let h1 = free (serialNum (info dev)) (free (manufacturer (info dev)) (free (product (info dev)) h));
          h2 = free (Some (dev_addr dev)) h1
      in BackendDeviceClose (backendDevice dev) h2)"

subsection \<open>Decimal integers, in the words of the specification\<close>




subsection \<open>A concrete session\<close>

text \<open>
  An open session on an ADU218 (8 relays, 8 inputs) whose transport will deliver the
  reads \<open>rs\<close>; the memory after its report buffer starts with the bytes of the vendor
  and product identifiers.
\<close>

definition example_info :: RelaconDeviceInfo where
  "example_info = \<lparr>vid = 0x0a07, pid = 218, serialNum = None, manufacturer = None,
                    product = None, handle = None, numRelays = 8, numInputs = 8\<rparr>"

definition example_dev :: "(RelaconStatus \<times> byte list) list \<Rightarrow> RelaconDevice" where
  "example_dev rs =
     \<lparr>dev_addr = 1,
      backendDevice = \<lparr>bd_addr = 2, sent = [], write_results = [], read_results = rs\<rparr>,
      reportBuf = [0, 0, 0, 0, 0, 0, 0, 0], after_reportBuf = [7, 10, 218, 0],
      info = example_info\<rparr>"

subsection \<open>Predicates of the statements\<close>

text \<open>
  The addresses an entry owns (its struct and its three strings), the platform devices
  the capability table knows, the candidates whose strings the libusb transport can
  read (the device opens and no descriptor fetch fails), and the entries listed without
  any string.
\<close>

definition entry_addrs :: "BackendDeviceListEntry \<Rightarrow> nat list" where
  "entry_addrs e =
     entry_addr e #
     concat (map (\<lambda>p. case p of None \<Rightarrow> [] | Some a \<Rightarrow> [a])
       [manufacturer (devInfo e), product (devInfo e), serialNum (devInfo e)])"





text \<open>
  A heap is in order when every live block lies below the next address to be handed
  out. \<open>step_from n h h'\<close> says that \<open>h'\<close> comes from \<open>h\<close> by allocating and by
  freeing blocks from address \<open>n\<close> on only. A pointer is good when it is \<open>NULL\<close> or
  points to a live string; it is fresh from \<open>n\<close> when it is good and not below \<open>n\<close>.
\<close>

definition heap_ok :: "heap \<Rightarrow> bool" where
  "heap_ok h = (\<forall>x\<in>set (live h). fst x < next_addr h)"

definition block_at :: "heap \<Rightarrow> nat \<Rightarrow> block option" where
  "block_at h a = map_of (live h) a"

definition step_from :: "nat \<Rightarrow> heap \<Rightarrow> heap \<Rightarrow> bool" where
  "step_from n h h' =
     (heap_ok h' \<and> next_addr h \<le> next_addr h' \<and> set (alloc_ok h') \<subseteq> set (alloc_ok h) \<and>
      (\<forall>a<n. block_at h' a = block_at h a))"

definition good :: "heap \<Rightarrow> nat option \<Rightarrow> bool" where
  "good h p = (case p of None \<Rightarrow> True
               | Some a \<Rightarrow> a < next_addr h \<and> (\<exists>s. block_at h a = Some (StringBlock s)))"

definition entry_good :: "heap \<Rightarrow> BackendDeviceListEntry \<Rightarrow> bool" where
  "entry_good h e =
     (entry_addr e < next_addr h \<and> good h (manufacturer (devInfo e)) \<and>
      good h (product (devInfo e)) \<and> good h (serialNum (devInfo e)))"

definition fresh_good :: "nat \<Rightarrow> heap \<Rightarrow> nat option \<Rightarrow> bool" where
  "fresh_good n h p = (good h p \<and> (\<forall>a. p = Some a \<longrightarrow> n \<le> a))"

definition info_fresh :: "nat \<Rightarrow> heap \<Rightarrow> RelaconDeviceInfo \<Rightarrow> bool" where
  "info_fresh n h di =
     (fresh_good n h (manufacturer di) \<and> fresh_good n h (product di) \<and> fresh_good n h (serialNum di))"

text \<open>
  \<open>copied h h' src dst\<close>: between \<open>h\<close> and \<open>h'\<close> the string at \<open>src\<close> has been
  duplicated into a new block at \<open>dst\<close>, or \<open>dst\<close> is \<open>NULL\<close> because \<open>src\<close> is or
  because an allocation failed.
\<close>

definition copied :: "heap \<Rightarrow> heap \<Rightarrow> nat option \<Rightarrow> nat option \<Rightarrow> bool" where
  "copied h h' src dst =
     (case dst of
        None \<Rightarrow> src = None \<or> False \<in> set (alloc_ok h)
      | Some b \<Rightarrow> src \<noteq> None \<and> next_addr h \<le> b \<and> b < next_addr h' \<and>
                  (\<exists>s. block_at h' b = Some (StringBlock s) \<and> string_at h src = Some s))"

text \<open>
  Every address a listing owns, and what it means for a string of a session to be the
  session's own copy of a string of the listing: the session's pointer is \<open>NULL\<close>, or
  the listing had the string and the pointer is an address the listing does not own, not
  in use before the open, that holds the same characters after the open.
\<close>

definition listing_addrs :: "RelaconDeviceList \<Rightarrow> nat list" where
  "listing_addrs dl =
     rdl_addr dl # list_addr (backendDeviceList dl) #
     concat (map entry_addrs (listStart (backendDeviceList dl)))"

definition owned_copy :: "heap \<Rightarrow> heap \<Rightarrow> RelaconDeviceList \<Rightarrow> nat option \<Rightarrow> nat option \<Rightarrow> bool" where
  "owned_copy h1 h2 dl src dst =
     (case dst of
        None \<Rightarrow> True
      | Some b \<Rightarrow>
          src \<noteq> None \<and> b \<notin> set (listing_addrs dl) \<and> \<not> is_live h1 b \<and>
          string_at h2 dst \<noteq> None \<and> string_at h2 dst = string_at h1 src)"

subsection \<open>Concrete platform devices\<close>

text \<open>
  An empty heap where every allocation succeeds, an ADU218 that opens and has all three
  strings, a Relacon controller that cannot be opened (it is in use), and a device that
  is no relay controller.
\<close>

definition example_heap :: heap where
  "example_heap = \<lparr>live = [], next_addr = 1, alloc_ok = []\<rparr>"

definition usb_adu218 :: usb_device where
  "usb_adu218 =
     \<lparr>idVendor = 0x0a07, idProduct = 218, usage = 1, probe_opens = True, session_opens = True,
      claim_ok = True, manufacturer_string = Descriptor [79, 110],
      product_string = Descriptor [65], serial_number_string = Descriptor [49, 50],
      transport_writes = [], transport_reads = []\<rparr>"

definition usb_busy :: usb_device where
  "usb_busy =
     \<lparr>idVendor = 0x1209, idProduct = 0xFA70, usage = 1, probe_opens = False, session_opens = False,
      claim_ok = False, manufacturer_string = Descriptor [82], product_string = Descriptor [67],
      serial_number_string = Descriptor [51, 52], transport_writes = [], transport_reads = []\<rparr>"

definition usb_other :: usb_device where
  "usb_other =
     \<lparr>idVendor = 0x046d, idProduct = 0xc077, usage = 2, probe_opens = True, session_opens = True,
      claim_ok = True, manufacturer_string = NoDescriptor, product_string = NoDescriptor,
      serial_number_string = NoDescriptor, transport_writes = [], transport_reads = []\<rparr>"

definition example_usb :: "usb_device list" where
  "example_usb = [usb_other, usb_busy, usb_adu218]"

section \<open>Verified properties\<close>

subsection \<open>Capability lookup\<close>

text \<open>
  C10. The capability lookup maps exactly the pairs (0x0a07, 208), (0x0a07, 218) and
  (0x1209, 0xFA70) to 8 relays and 8 inputs, and returns no capabilities for every other
  (vid, pid) pair, the 4-relay ADU200 (0x0a07, 200) included.
\<close>

theorem DeviceCapabilitiesQuery_table:
  "DeviceCapabilitiesQuery v p =
     (if (v, p) = (0x0a07, 208) \<or> (v, p) = (0x0a07, 218) \<or> (v, p) = (0x1209, 0xFA70)
      then Some \<lparr>DeviceCapabilities.numInputs = 8, DeviceCapabilities.numRelays = 8\<rparr>
      else None)
   \<and> DeviceCapabilitiesQuery 0x0a07 200 = None"
  by (simp add: DeviceCapabilitiesQuery_def SUPPORTED_DEVICES_def VID_ONTRAK_def
      VID_PIDCODES_def PID_ADU208_def PID_ADU218_def PID_RELACON_def)

subsection \<open>The numeric decoder\<close>


lemma cstr_nonzero: "0 \<notin> set (cstr m)"
  unfolding cstr_def by (induction m) auto














lemma not_digit_sign: "\<not> isdigit 0x2b" "\<not> isdigit 0x2d"
  by (simp_all add: isdigit_def)















subsection \<open>Argument checks and the event counter\<close>

text \<open>
  C2. On a session with 8 relays, relay index 8 makes both the single-relay write and
  the single-relay read return the null-argument status, not the invalid-parameter
  status; no report is sent (the session, with its record of sent reports, is unchanged).
\<close>

theorem RelaconDeviceSingleRelay_index_status:
  "RelaconDeviceSingleRelayWrite (Some (example_dev [])) 8 True =
     (Returned RELACON_STATUS_ERROR_ARGUMENT_NULL, Some (example_dev []))
   \<and> RelaconDeviceSingleRelayRead (Some (example_dev [])) 8 (Some False) =
     (Returned RELACON_STATUS_ERROR_ARGUMENT_NULL, Some (example_dev []), Some False)"
  by (simp add: RelaconDeviceSingleRelayWrite_def RelaconDeviceSingleRelayRead_def example_dev_def example_info_def)

text \<open>
  C3. The event-counter read of counter 0 without clearing sends \<open>RE0\<close>; when the device
  answers 256, the call succeeds and stores 0 in the 16-bit output, since the value goes
  through an 8-bit cast.
\<close>

theorem RelaconDeviceEventCounterGet_truncates:
  "RelaconDeviceEventCounterGet
     (Some (example_dev [(RELACON_STATUS_SUCCESS, [1, 0x32, 0x35, 0x36, 0, 0, 0, 0])])) 0 False (Some 7) =
   (Returned RELACON_STATUS_SUCCESS,
    Some ((example_dev [])
          \<lparr>reportBuf := [1, 0x32, 0x35, 0x36, 0, 0, 0, 0],
            backendDevice := (backendDevice (example_dev []))\<lparr>sent := [[1, 0x52, 0x45, 0x30, 0, 0, 0, 0]]\<rparr>\<rparr>),
    Some 0)"
  by code_simp

text \<open>
  C9. The relay-port read called with a \<open>NULL\<close> output pointer sends \<open>PK\<close>, reads the
  answer and then writes through the \<open>NULL\<close> pointer; the information query called
  with a \<open>NULL\<close> session reads through it.
\<close>

theorem RelaconDeviceRelaysRead_null_output:
  "RelaconDeviceRelaysRead
     (Some (example_dev [(RELACON_STATUS_SUCCESS, [1, 0x31, 0x37, 0, 0, 0, 0, 0])])) None =
   (NullDereference,
    Some ((example_dev [])
          \<lparr>reportBuf := [1, 0x31, 0x37, 0, 0, 0, 0, 0],
            backendDevice := (backendDevice (example_dev []))\<lparr>sent := [[1, 0x50, 0x4b, 0, 0, 0, 0, 0]]\<rparr>\<rparr>),
    None)
   \<and> RelaconDeviceGetInfo None (Some example_info) = (NullDereference, Some example_info)"
  by code_simp


subsection \<open>Raw pass-through\<close>

lemma sent_WriteReport:
  "sent (backendDevice (snd (WriteReport d))) = sent (backendDevice d) @ [take 8 (reportBuf d)]"
  by (simp add: WriteReport_def BackendDeviceWriteReport_def REPORT_BUF_LEN_def
      REPORT_DATA_LEN_def split: list.splits)

lemma min_plus_diff: "min (a::nat) n + (n - a) = n"
  by arith

lemma strncpy_take:
  "take n (strncpy dest src n) = take n (cstr src) @ replicate (n - strlen src) 0"
  by (simp add: strncpy_def write_at_def strlen_def)

lemma strncpy_drop: "drop n (strncpy dest src n) = drop n dest"
  by (simp add: strncpy_def write_at_def strlen_def min_plus_diff)

lemma strncpy_length: "n \<le> length dest \<Longrightarrow> length (strncpy dest src n) = length dest"
  by (simp add: strncpy_def write_at_def strlen_def min_plus_diff)

text \<open>
  C6. Raw command write with a command longer than 7 bytes returns the
  invalid-parameter error and leaves the session as it was, so nothing is sent;
  otherwise exactly one report is handed to the transport, of 8 bytes: the identifier 1,
  the command string, and zero bytes after it.
\<close>

theorem RelaconDeviceRawWrite_report:
  "(case RelaconDeviceRawWrite (Some d) (Some cmd) of
      (r, d') \<Rightarrow>
        if strlen cmd > 7
        then r = Returned RELACON_STATUS_ERROR_INVALID_PARAM \<and> d' = Some d
        else (\<exists>st. r = Returned st) \<and>
             map_option (\<lambda>x. sent (backendDevice x)) d' =
               Some (sent (backendDevice d) @ [1 # cstr cmd @ replicate (7 - strlen cmd) 0]) \<and>
             length (1 # cstr cmd @ replicate (7 - strlen cmd) 0) = 8)"
proof (cases "strlen cmd > 7")
  case True
  then show ?thesis
    by (simp add: RelaconDeviceRawWrite_def REPORT_DATA_LEN_def)
next
  case False
  define buf2 where "buf2 = take 1 (write_at 0 [REPORT_ID_CMD] (reportBuf d)) @
                   strncpy (drop 1 (write_at 0 [REPORT_ID_CMD] (reportBuf d))) cmd 7"
  have t: "take 8 buf2 = 1 # cstr cmd @ replicate (7 - strlen cmd) 0"
    using False by (simp add: buf2_def write_at_def REPORT_ID_CMD_def strncpy_def strlen_def)
  have "RelaconDeviceRawWrite (Some d) (Some cmd) =
          (Returned (fst (WriteReport (d\<lparr>reportBuf := buf2\<rparr>))),
           Some (snd (WriteReport (d\<lparr>reportBuf := buf2\<rparr>))))"
    using False
    by (simp add: RelaconDeviceRawWrite_def REPORT_DATA_LEN_def buf2_def Let_def split: prod.splits)
  moreover have "length (1 # cstr cmd @ replicate (7 - strlen cmd) 0) = 8"
    using False by (simp add: strlen_def)
  ultimately show ?thesis
    using sent_WriteReport [of "d\<lparr>reportBuf := buf2\<rparr>"] t False by simp
qed


lemma strlen_append_le: "strlen a \<le> strlen (a @ b)"
  unfolding strlen_def cstr_def by (induction a) auto

lemma zero_in_strncpy:
  "0 \<in> set (take n (cstr s) @ replicate (n - strlen s) 0) \<longleftrightarrow> strlen s + 1 \<le> n"
  using cstr_nonzero [of s] by (auto dest: in_set_takeD)

text \<open>
  C7. Raw response read leaves every byte of the caller's buffer from offset \<open>len\<close> on
  as it was, and the buffer keeps its length when it has \<open>len\<close> bytes. When the read
  fails the buffer is unchanged. When it succeeds the first \<open>len\<close> bytes are the
  response string cut to \<open>len\<close> bytes, then zero bytes; a zero byte is among them
  exactly when the string in memory and its terminator fit in \<open>len\<close> bytes, and then
  the string in the seven data bytes and its terminator fit as well.
\<close>

theorem RelaconDeviceRawRead_bounded:
  "\<exists>st dv b'.
     RelaconDeviceRawRead (Some d) (Some b) len timeout = (Returned st, Some dv, Some b')
     \<and> drop (unat len) b' = drop (unat len) b
     \<and> (unat len \<le> length b \<longrightarrow> length b' = length b)
     \<and> (st \<noteq> RELACON_STATUS_SUCCESS \<longrightarrow> b' = b)
     \<and> (st = RELACON_STATUS_SUCCESS \<longrightarrow>
          take (unat len) b' =
            take (unat len) (cstr (drop 1 (reportBuf dv) @ after_reportBuf dv))
            @ replicate (unat len - strlen (drop 1 (reportBuf dv) @ after_reportBuf dv)) 0
          \<and> (0 \<in> set (take (unat len) b') \<longleftrightarrow>
               strlen (drop 1 (reportBuf dv) @ after_reportBuf dv) + 1 \<le> unat len)
          \<and> (0 \<in> set (take (unat len) b') \<longrightarrow> strlen (drop 1 (reportBuf dv)) + 1 \<le> unat len))"
proof (cases "fst (ReadReport d timeout) = RELACON_STATUS_SUCCESS")
  case False
  then show ?thesis
    by (simp add: RelaconDeviceRawRead_def case_prod_beta)
next
  case True
  let ?dv = "snd (ReadReport d timeout)"
  let ?m = "drop 1 (reportBuf ?dv) @ after_reportBuf ?dv"
  have r: "RelaconDeviceRawRead (Some d) (Some b) len timeout =
      (Returned RELACON_STATUS_SUCCESS, Some ?dv, Some (strncpy b ?m (unat len)))"
    using True by (simp add: RelaconDeviceRawRead_def case_prod_beta)
  have z: "0 \<in> set (take (unat len) (strncpy b ?m (unat len))) \<longleftrightarrow> strlen ?m + 1 \<le> unat len"
    unfolding strncpy_take by (rule zero_in_strncpy)
  have le: "strlen (drop 1 (reportBuf ?dv)) \<le> strlen ?m"
    by (rule strlen_append_le)
  show ?thesis
    unfolding r using z le
    by (simp add: strncpy_take strncpy_drop strncpy_length)
qed

text \<open>
  The statement of C7 on the concrete session: the answer 17 read into a buffer of five
  bytes with \<open>len = 4\<close> stores '1' '7' 00 00 and leaves the fifth byte alone.
\<close>

theorem RelaconDeviceRawRead_bounded_witness:
  "RelaconDeviceRawRead
      (Some (example_dev [(RELACON_STATUS_SUCCESS, [1, 0x31, 0x37, 0, 0, 0, 0, 0])]))
      (Some [9, 9, 9, 9, 9]) 4 (- 1) =
     (Returned RELACON_STATUS_SUCCESS,
      Some ((example_dev [])\<lparr>reportBuf := [1, 0x31, 0x37, 0, 0, 0, 0, 0]\<rparr>),
      Some [0x31, 0x37, 0, 0, 9])
   \<and> unat (4 :: 32 word) \<le> length [9, 9, 9, 9, 9 :: byte]
   \<and> (0 :: byte) \<in> set (take (unat (4 :: 32 word)) [0x31, 0x37, 0, 0, 9])
   \<and> strlen (drop 1 [1, 0x31, 0x37, 0, 0, 0, 0, 0]) + 1 \<le> unat (4 :: 32 word)"
proof -
  have ev: "RelaconDeviceRawRead
      (Some (example_dev [(RELACON_STATUS_SUCCESS, [1, 0x31, 0x37, 0, 0, 0, 0, 0])]))
      (Some [9, 9, 9, 9, 9]) 4 (- 1) =
     (Returned RELACON_STATUS_SUCCESS,
      Some ((example_dev [])\<lparr>reportBuf := [1, 0x31, 0x37, 0, 0, 0, 0, 0]\<rparr>),
      Some [0x31, 0x37, 0, 0, 9])"
    by code_simp
  show ?thesis
    using RelaconDeviceRawRead_bounded
      [of "example_dev [(RELACON_STATUS_SUCCESS, [1, 0x31, 0x37, 0, 0, 0, 0, 0])]"
          "[9, 9, 9, 9, 9]" 4 "- 1"]
    unfolding ev by (simp add: strlen_def cstr_def)
qed

subsection \<open>Enumeration when no allocation fails\<close>


lemma alloc_ok_free [simp]: "alloc_ok (free p h) = alloc_ok h"
  by (simp add: free_def split: option.splits)






lemma alloc_ok_DeviceInfoFree [simp]: "alloc_ok (DeviceInfoFree di h) = alloc_ok h"
  by (simp add: DeviceInfoFree_def)





subsection \<open>Heap invariants of the enumeration\<close>

lemma block_at_above: "heap_ok h \<Longrightarrow> next_addr h \<le> a \<Longrightarrow> block_at h a = None"
  unfolding heap_ok_def block_at_def
  by (cases "map_of (live h) a") (auto dest!: map_of_SomeD)

lemma malloc_None: "malloc blk h = (None, h') \<Longrightarrow> h' = h\<lparr>alloc_ok := tl (alloc_ok h)\<rparr>"
  by (auto simp: malloc_def split: if_splits)

lemma malloc_Some:
  "malloc blk h = (Some a, h') \<Longrightarrow>
     a = next_addr h \<and>
     h' = h\<lparr>live := live h @ [(a, blk)], next_addr := Suc a, alloc_ok := tl (alloc_ok h)\<rparr>"
  by (auto simp: malloc_def split: if_splits)

lemma set_tl_subset: "set (tl xs) \<subseteq> set xs"
  by (cases xs) auto

lemma step_from_refl: "heap_ok h \<Longrightarrow> step_from n h h"
  by (simp add: step_from_def)

lemma step_from_trans:
  "step_from n h h1 \<Longrightarrow> step_from n h1 h2 \<Longrightarrow> step_from n h h2"
  by (auto simp: step_from_def)

lemma step_from_mono: "m \<le> n \<Longrightarrow> step_from n h h' \<Longrightarrow> step_from m h h'"
  by (auto simp: step_from_def)

lemma step_from_heap_ok: "step_from n h h' \<Longrightarrow> heap_ok h'"
  by (simp add: step_from_def)

lemma step_from_next: "step_from n h h' \<Longrightarrow> next_addr h \<le> next_addr h'"
  by (simp add: step_from_def)

lemma heap_ok_alloc_ok [simp]: "heap_ok (h\<lparr>alloc_ok := x\<rparr>) = heap_ok h"
  by (simp add: heap_ok_def)

lemma block_at_alloc_ok [simp]: "block_at (h\<lparr>alloc_ok := x\<rparr>) = block_at h"
  by (simp add: block_at_def fun_eq_iff)

lemma heap_ok_extend:
  "heap_ok h \<Longrightarrow> heap_ok (h\<lparr>live := live h @ [(next_addr h, blk)], next_addr := Suc (next_addr h)\<rparr>)"
  unfolding heap_ok_def by (auto simp add: less_Suc_eq)

lemma malloc_step:
  assumes "heap_ok h" "n \<le> next_addr h" "malloc blk h = (p, h')"
  shows "step_from n h h'"
proof (cases p)
  case None
  with assms(3) have "h' = h\<lparr>alloc_ok := tl (alloc_ok h)\<rparr>"
    by (auto dest!: malloc_None)
  then show ?thesis
    using assms(1) set_tl_subset [of "alloc_ok h"]
    by (simp add: step_from_def)
next
  case (Some a)
  with assms(3) have a: "a = next_addr h"
    and h': "h' = h\<lparr>live := live h @ [(a, blk)], next_addr := Suc a, alloc_ok := tl (alloc_ok h)\<rparr>"
    by (auto dest!: malloc_Some)
  have "block_at h' b = block_at h b" if "b < n" for b
  proof -
    from that assms(2) a have "b \<noteq> a" by simp
    then show ?thesis
      by (auto simp: h' block_at_def map_add_def split: option.splits)
  qed
  moreover have "heap_ok h'"
    using heap_ok_extend [OF assms(1), of blk] by (simp add: h' a)
  ultimately show ?thesis
    using set_tl_subset [of "alloc_ok h"]
    by (simp add: step_from_def h' a)
qed

lemma malloc_block:
  assumes "heap_ok h" "malloc blk h = (Some a, h')"
  shows "block_at h' a = Some blk" "a = next_addr h" "next_addr h' = Suc a"
proof -
  from assms(2) have a: "a = next_addr h"
    and h': "h' = h\<lparr>live := live h @ [(a, blk)], next_addr := Suc a, alloc_ok := tl (alloc_ok h)\<rparr>"
    by (auto dest!: malloc_Some)
  have "map_of (live h) a = None"
    using block_at_above [OF assms(1), of a] a by (simp add: block_at_def)
  then show "block_at h' a = Some blk"
    by (simp add: h' block_at_def map_add_def)
  show "a = next_addr h" by (rule a)
  show "next_addr h' = Suc a" by (simp add: h')
qed

lemma map_of_filter_fst:
  "map_of (filter (\<lambda>x. fst x \<noteq> a) xs) b = (if b = a then None else map_of xs b)"
  by (induction xs) auto

lemma block_at_free:
  "block_at (free p h) b = (if p = Some b then None else block_at h b)"
  by (cases p) (auto simp: free_def block_at_def map_of_filter_fst)

lemma next_addr_free [simp]: "next_addr (free p h) = next_addr h"
  by (cases p) (auto simp: free_def)

lemma heap_ok_free: "heap_ok h \<Longrightarrow> heap_ok (free p h)"
  unfolding heap_ok_def by (auto simp: free_def split: option.splits)

lemma free_step:
  assumes "heap_ok h" "\<forall>a. p = Some a \<longrightarrow> n \<le> a"
  shows "step_from n h (free p h)"
  using assms by (auto simp: step_from_def heap_ok_free block_at_free)

lemma good_step: "good h p \<Longrightarrow> step_from (next_addr h) h h' \<Longrightarrow> good h' p"
  by (cases p) (auto simp: good_def step_from_def)

lemma entry_good_step: "entry_good h e \<Longrightarrow> step_from (next_addr h) h h' \<Longrightarrow> entry_good h' e"
  by (auto simp: entry_good_def intro: good_step) (simp add: step_from_def)

lemma step_from_chain:
  "step_from (next_addr h) h h1 \<Longrightarrow> step_from (next_addr h1) h1 h2 \<Longrightarrow> step_from (next_addr h) h h2"
  using step_from_mono [of "next_addr h" "next_addr h1" h1 h2] step_from_next [of "next_addr h" h h1]
  by (blast intro: step_from_trans)

lemma good_None [simp]: "good h None"
  by (simp add: good_def)

lemma malloc_string_good:
  assumes "heap_ok h" "malloc (StringBlock s) h = (Some a, h')"
  shows "good h' (Some a)" "next_addr h \<le> a"
  using malloc_block [OF assms] by (simp_all add: good_def)

lemma FetchString_step:
  assumes ok: "heap_ok h" and r: "FetchString desc h = (st, asg, h')"
  shows "step_from (next_addr h) h h'" and "good h' (stored asg None)"
    and "\<forall>a. stored asg None = Some a \<longrightarrow> next_addr h \<le> a"
proof -
  show "step_from (next_addr h) h h'"
  proof (cases desc)
    case (Descriptor ws)
    obtain p h1 where m: "malloc (StringBlock (map of_nat (takeWhile (\<lambda>w. w < 128) (take 63 ws)))) h = (p, h1)"
      by (cases "malloc (StringBlock (map of_nat (takeWhile (\<lambda>w. w < 128) (take 63 ws)))) h") auto
    have "h' = h1"
      using r by (auto simp: FetchString_def Descriptor m split: option.splits if_splits)
    then show ?thesis using malloc_step [OF ok _ m] by simp
  qed (use r ok in \<open>auto simp: FetchString_def step_from_refl\<close>)
  show "good h' (stored asg None)" "\<forall>a. stored asg None = Some a \<longrightarrow> next_addr h \<le> a"
  proof -
    have "good h' (stored asg None) \<and> (\<forall>a. stored asg None = Some a \<longrightarrow> next_addr h \<le> a)"
    proof (cases desc)
      case (Descriptor ws)
      obtain p h1 where m: "malloc (StringBlock (map of_nat (takeWhile (\<lambda>w. w < 128) (take 63 ws)))) h = (p, h1)"
        by (cases "malloc (StringBlock (map of_nat (takeWhile (\<lambda>w. w < 128) (take 63 ws)))) h") auto
      show ?thesis
        using r malloc_string_good [OF ok, of _ _ h1] m
        by (auto simp: FetchString_def Descriptor stored_def split: option.splits if_splits)
    qed (use r in \<open>auto simp: FetchString_def stored_def\<close>)
    then show "good h' (stored asg None)" "\<forall>a. stored asg None = Some a \<longrightarrow> next_addr h \<le> a"
      by auto
  qed
qed

lemma DeviceInfoPopulate_step:
  assumes ok: "heap_ok h" and r: "DeviceInfoPopulate a d caps h = (di, h')"
  shows "step_from (next_addr h) h h'"
    and "good h' (manufacturer di) \<and> good h' (product di) \<and> good h' (serialNum di)"
proof -
  have "step_from (next_addr h) h h' \<and>
        good h' (manufacturer di) \<and> good h' (product di) \<and> good h' (serialNum di)"
  proof (cases "probe_opens d")
    case False
    with r ok show ?thesis
      by (auto simp: DeviceInfoPopulate_def step_from_refl)
  next
    case True
    obtain s1 m h1 where f1: "FetchString (manufacturer_string d) h = (s1, m, h1)"
      by (cases "FetchString (manufacturer_string d) h") auto
    obtain s2 p h2 where f2: "FetchString (product_string d) h1 = (s2, p, h2)"
      by (cases "FetchString (product_string d) h1") auto
    obtain s3 sn h3 where f3: "FetchString (serial_number_string d) h2 = (s3, sn, h3)"
      by (cases "FetchString (serial_number_string d) h2") auto
    note st1 = FetchString_step [OF ok f1]
    have ok1: "heap_ok h1" using st1(1) by (rule step_from_heap_ok)
    note st2 = FetchString_step [OF ok1 f2]
    have ok2: "heap_ok h2" using st2(1) by (rule step_from_heap_ok)
    note st3 = FetchString_step [OF ok2 f3]
    have h': "h' = h3" and di: "manufacturer di = stored m None" "product di = stored p None"
        "serialNum di = stored sn None"
      using r True by (auto simp: DeviceInfoPopulate_def f1 f2 f3)
    have "step_from (next_addr h) h h3"
      using st1(1) st2(1) st3(1) by (blast intro: step_from_chain)
    moreover have "good h3 (stored m None)"
      using st1(2) st2(1) st3(1) by (blast intro: good_step step_from_chain)
    moreover have "good h3 (stored p None)"
      using st2(2) st3(1) by (blast intro: good_step)
    ultimately show ?thesis
      using st3(2) by (simp add: h' di)
  qed
  then show "step_from (next_addr h) h h'"
    and "good h' (manufacturer di) \<and> good h' (product di) \<and> good h' (serialNum di)"
    by auto
qed

lemma hidapi_loop_good:
  assumes "heap_ok h" "\<forall>e\<in>set entries. entry_good h e"
      and "DeviceListEntriesCreate_hidapi_loop flt ds entries h = (st, es, h')"
  shows "step_from (next_addr h) h h' \<and> (\<forall>e\<in>set es. entry_good h' e)"
  using assms
proof (induction ds arbitrary: entries h)
  case Nil
  then show ?case by (auto simp: step_from_refl)
next
  case (Cons d ds)
  show ?case
  proof (cases "DeviceCapabilitiesQuery (idVendor d) (idProduct d)")
    case None
    with Cons show ?thesis by simp
  next
    case (Some caps)
    show ?thesis
    proof (cases "IsPotentialRelaconDevice flt d")
      case False
      with Cons Some show ?thesis by simp
    next
      case True
      obtain p h1 where m: "malloc StructBlock h = (p, h1)"
        by (cases "malloc StructBlock h") auto
      have s1: "step_from (next_addr h) h h1"
        using malloc_step [OF Cons.prems(1) _ m] by simp
      show ?thesis
      proof (cases p)
        case None
        with Cons.prems Some True m s1 show ?thesis
          by (auto intro: entry_good_step)
      next
        case (Some a)
        obtain di h2 where dp: "DeviceInfoPopulate a d caps h1 = (di, h2)"
          by (cases "DeviceInfoPopulate a d caps h1") auto
        have ok1: "heap_ok h1" using s1 by (rule step_from_heap_ok)
        note s2 = DeviceInfoPopulate_step [OF ok1 dp]
        have ok2: "heap_ok h2" using s2(1) by (rule step_from_heap_ok)
        have s12: "step_from (next_addr h) h h2"
          using s1 s2(1) by (rule step_from_chain)
        have a: "a < next_addr h2"
          using malloc_block(2,3) [OF Cons.prems(1)] m Some step_from_next [OF s2(1)] by auto
        have new: "entry_good h2 \<lparr>entry_addr = a, devInfo = di, device = d\<rparr>"
          using s2(2) a by (simp add: entry_good_def)
        have old: "\<forall>e\<in>set entries. entry_good h2 e"
          using Cons.prems(2) s12 by (blast intro: entry_good_step)
        have inv: "\<forall>e\<in>set (entries @ [\<lparr>entry_addr = a, devInfo = di, device = d\<rparr>]). entry_good h2 e"
          using new old by simp
        have "DeviceListEntriesCreate_hidapi_loop flt ds
                (entries @ [\<lparr>entry_addr = a, devInfo = di, device = d\<rparr>]) h2 = (st, es, h')"
          using Cons.prems(3) \<open>DeviceCapabilitiesQuery (idVendor d) (idProduct d) = Some caps\<close>
            True m Some dp by simp
        from Cons.IH [OF ok2 inv this] show ?thesis
          using s12 by (blast intro: step_from_chain)
      qed
    qed
  qed
qed

lemma fresh_good_step:
  "fresh_good n h p \<Longrightarrow> step_from (next_addr h) h h' \<Longrightarrow> fresh_good n h' p"
  by (auto simp: fresh_good_def intro: good_step)

lemma info_fresh_step:
  "info_fresh n h di \<Longrightarrow> step_from (next_addr h) h h' \<Longrightarrow> info_fresh n h' di"
  by (auto simp: info_fresh_def intro: fresh_good_step)

lemma DeviceInfoFree_step:
  assumes "heap_ok h" "info_fresh n h di"
  shows "step_from n h (DeviceInfoFree di h)"
proof -
  let ?h1 = "free (manufacturer di) h"
  let ?h2 = "free (product di) ?h1"
  have s1: "step_from n h ?h1"
    using assms by (intro free_step) (auto simp: info_fresh_def fresh_good_def)
  have s2: "step_from n ?h1 ?h2"
    using assms by (intro free_step heap_ok_free) (auto simp: info_fresh_def fresh_good_def)
  have s3: "step_from n ?h2 (free (serialNum di) ?h2)"
    using assms by (intro free_step heap_ok_free) (auto simp: info_fresh_def fresh_good_def)
  show ?thesis
    unfolding DeviceInfoFree_def using s1 s2 s3 by (blast intro: step_from_trans)
qed

lemma FetchStringDescriptor_step:
  assumes ok: "heap_ok h" and r: "FetchStringDescriptor desc h = (st, asg, h')"
  shows "step_from (next_addr h) h h'"
    and "\<forall>p. asg = Some p \<longrightarrow> fresh_good (next_addr h) h' p"
proof -
  have "step_from (next_addr h) h h' \<and> (\<forall>p. asg = Some p \<longrightarrow> fresh_good (next_addr h) h' p)"
  proof (cases "desc = NoDescriptor")
    case True
    with r ok show ?thesis by (auto simp: FetchStringDescriptor_def step_from_refl)
  next
    case False
    let ?blk = "StringBlock (case desc of
                    Descriptor ws \<Rightarrow> map (\<lambda>w. if w < 128 then of_nat w else 0x3f) (take 127 ws)
                  | _ \<Rightarrow> [])"
    obtain p h1 where m: "malloc ?blk h = (p, h1)"
      by (cases "malloc ?blk h") auto
    have s1: "step_from (next_addr h) h h1"
      using malloc_step [OF ok _ m] by simp
    have ok1: "heap_ok h1" using s1 by (rule step_from_heap_ok)
    show ?thesis
    proof (cases p)
      case None
      with r False m s1 show ?thesis by (simp add: FetchStringDescriptor_def)
    next
      case (Some a)
      have a: "next_addr h \<le> a" "good h1 (Some a)"
        using malloc_string_good [OF ok] m Some by auto
      show ?thesis
      proof (cases "desc = FetchFails")
        case True
        have "step_from (next_addr h) h1 (free (Some a) h1)"
          using ok1 a(1) by (intro free_step) auto
        with s1 have "step_from (next_addr h) h (free (Some a) h1)"
          by (rule step_from_trans)
        with r False m Some True show ?thesis
          by (simp add: FetchStringDescriptor_def)
      next
        case nf: False
        with r False m Some s1 a show ?thesis
          by (auto simp: FetchStringDescriptor_def fresh_good_def)
      qed
    qed
  qed
  then show "step_from (next_addr h) h h'"
    and "\<forall>p. asg = Some p \<longrightarrow> fresh_good (next_addr h) h' p"
    by auto
qed

lemma fresh_good_mono: "m \<le> n \<Longrightarrow> fresh_good n h p \<Longrightarrow> fresh_good m h p"
  by (auto simp: fresh_good_def)

lemma fetch_round_step:
  assumes ok: "heap_ok h" and n: "n \<le> next_addr h"
      and inv: "st = RELACON_STATUS_SUCCESS \<longrightarrow> info_fresh n h di"
      and upd: "\<And>p x g. info_fresh n g x \<Longrightarrow> fresh_good n g p \<Longrightarrow> info_fresh n g (upd p x)"
      and r: "fetch_round upd desc (st, di, h) = (st', di', h')"
  shows "step_from n h h' \<and> (st' = RELACON_STATUS_SUCCESS \<longrightarrow> info_fresh n h' di')"
proof (cases "st = RELACON_STATUS_SUCCESS")
  case False
  with r ok show ?thesis by (auto simp: fetch_round_def step_from_refl)
next
  case True
  obtain fs asg h1 where f: "FetchStringDescriptor desc h = (fs, asg, h1)"
    by (cases "FetchStringDescriptor desc h") auto
  note fsd = FetchStringDescriptor_step [OF ok f]
  have ok1: "heap_ok h1" using fsd(1) by (rule step_from_heap_ok)
  have s1: "step_from n h h1" using fsd(1) n by (rule step_from_mono [rotated])
  let ?di1 = "case asg of None \<Rightarrow> di | Some p \<Rightarrow> upd p di"
  have old: "info_fresh n h1 di"
    using inv True fsd(1) by (blast intro: info_fresh_step)
  have di1: "info_fresh n h1 ?di1"
  proof (cases asg)
    case None
    with old show ?thesis by simp
  next
    case (Some p)
    with fsd(2) have "fresh_good (next_addr h) h1 p" by simp
    with n have "fresh_good n h1 p" by (rule fresh_good_mono)
    with old Some show ?thesis by (simp add: upd)
  qed
  show ?thesis
  proof (cases "fs \<noteq> RELACON_STATUS_SUCCESS \<and> fs \<noteq> RELACON_STATUS_ERROR_NO_ENTRY")
    case bad: True
    have "step_from n h1 (DeviceInfoFree ?di1 h1)"
      using ok1 di1 by (rule DeviceInfoFree_step)
    with s1 have "step_from n h (DeviceInfoFree ?di1 h1)" by (rule step_from_trans)
    with r True f bad show ?thesis
      by (auto simp: fetch_round_def Let_def)
  next
    case False
    with r True f s1 di1 show ?thesis
      by (auto simp: fetch_round_def Let_def)
  qed
qed

lemma PopulateDeviceInfoStrings_step:
  assumes ok: "heap_ok h"
      and empty: "manufacturer di = None" "product di = None" "serialNum di = None"
      and r: "PopulateDeviceInfoStrings d di h = (st, di', h')"
  shows "step_from (next_addr h) h h' \<and>
         (st = RELACON_STATUS_SUCCESS \<longrightarrow> info_fresh (next_addr h) h' di')"
proof (cases "probe_opens d")
  case False
  with r ok show ?thesis by (auto simp: PopulateDeviceInfoStrings_def step_from_refl)
next
  case True
  let ?n = "next_addr h"
  obtain st1 di1 h1 where r1:
    "fetch_round (\<lambda>p x. x\<lparr>manufacturer := p\<rparr>) (manufacturer_string d) (RELACON_STATUS_SUCCESS, di, h) = (st1, di1, h1)"
    by (cases "fetch_round (\<lambda>p x. x\<lparr>manufacturer := p\<rparr>) (manufacturer_string d) (RELACON_STATUS_SUCCESS, di, h)") auto
  obtain st2 di2 h2 where r2:
    "fetch_round (\<lambda>p x. x\<lparr>product := p\<rparr>) (product_string d) (st1, di1, h1) = (st2, di2, h2)"
    by (cases "fetch_round (\<lambda>p x. x\<lparr>product := p\<rparr>) (product_string d) (st1, di1, h1)") auto
  have r3: "fetch_round (\<lambda>p x. x\<lparr>serialNum := p\<rparr>) (serial_number_string d) (st2, di2, h2) = (st, di', h')"
    using r True by (simp add: PopulateDeviceInfoStrings_def r1 r2)
  have i0: "info_fresh ?n h di"
    using empty by (simp add: info_fresh_def fresh_good_def)
  have c1: "step_from ?n h h1 \<and> (st1 = RELACON_STATUS_SUCCESS \<longrightarrow> info_fresh ?n h1 di1)"
    by (rule fetch_round_step [OF ok order_refl _ _ r1]) (use i0 in \<open>simp_all add: info_fresh_def\<close>)
  then have ok1: "heap_ok h1" and n1: "?n \<le> next_addr h1"
    by (auto simp: step_from_def)
  have c2: "step_from ?n h1 h2 \<and> (st2 = RELACON_STATUS_SUCCESS \<longrightarrow> info_fresh ?n h2 di2)"
    by (rule fetch_round_step [OF ok1 n1 _ _ r2]) (use c1 in \<open>simp_all add: info_fresh_def\<close>)
  then have ok2: "heap_ok h2" and n2: "?n \<le> next_addr h2"
    using n1 by (auto simp: step_from_def)
  have c3: "step_from ?n h2 h' \<and> (st = RELACON_STATUS_SUCCESS \<longrightarrow> info_fresh ?n h' di')"
    by (rule fetch_round_step [OF ok2 n2 _ _ r3]) (use c2 in \<open>simp_all add: info_fresh_def\<close>)
  show ?thesis
    using c1 c2 c3 by (blast intro: step_from_trans)
qed

lemma DeviceListEntryCreate_step:
  assumes ok: "heap_ok h" and r: "DeviceListEntryCreate d caps h = (st, oe, h')"
  shows "step_from (next_addr h) h h' \<and> (\<forall>e. oe = Some e \<longrightarrow> entry_good h' e)"
proof -
  obtain p h1 where m: "malloc StructBlock h = (p, h1)"
    by (cases "malloc StructBlock h") auto
  have s1: "step_from (next_addr h) h h1"
    using malloc_step [OF ok _ m] by simp
  have ok1: "heap_ok h1" using s1 by (rule step_from_heap_ok)
  show ?thesis
  proof (cases p)
    case None
    with r m s1 show ?thesis by (simp add: DeviceListEntryCreate_def)
  next
    case (Some a)
    let ?di = "\<lparr>vid = idVendor d, pid = idProduct d, serialNum = None, manufacturer = None,
                     product = None, handle = Some a,
                     numRelays = DeviceCapabilities.numRelays caps,
                     numInputs = DeviceCapabilities.numInputs caps\<rparr>"
    obtain st2 di1 h2 where pr: "PopulateDeviceInfoStrings d ?di h1 = (st2, di1, h2)"
      by (cases "PopulateDeviceInfoStrings d ?di h1") auto
    have c: "step_from (next_addr h1) h1 h2 \<and>
         (st2 = RELACON_STATUS_SUCCESS \<longrightarrow> info_fresh (next_addr h1) h2 di1)"
      by (rule PopulateDeviceInfoStrings_step [OF ok1 _ _ _ pr]) simp_all
    have s2: "step_from (next_addr h) h h2"
      using s1 c by (blast intro: step_from_chain)
    have ok2: "heap_ok h2" using s2 by (rule step_from_heap_ok)
    have a: "a = next_addr h" "a < next_addr h2"
      using malloc_block(2,3) [OF ok] m Some c by (auto simp: step_from_def)
    show ?thesis
    proof (cases "st2 = RELACON_STATUS_SUCCESS")
      case True
      with c have "info_fresh (next_addr h1) h2 di1" by simp
      then have "entry_good h2 \<lparr>entry_addr = a, devInfo = di1, device = d\<rparr>"
        using a(2) by (simp add: entry_good_def info_fresh_def fresh_good_def)
      with r m Some pr True s2 show ?thesis
        by (auto simp: DeviceListEntryCreate_def)
    next
      case False
      have "step_from (next_addr h) h2 (free (Some a) h2)"
        using ok2 a(1) by (intro free_step) auto
      with s2 have "step_from (next_addr h) h (free (Some a) h2)"
        by (rule step_from_trans)
      with r m Some pr False show ?thesis
        by (auto simp: DeviceListEntryCreate_def)
    qed
  qed
qed

lemma libusb_loop_good:
  assumes "heap_ok h" "\<forall>e\<in>set entries. entry_good h e"
      and "DeviceListEntriesCreate_libusb ds entries h = (RELACON_STATUS_SUCCESS, es, h')"
  shows "step_from (next_addr h) h h' \<and> (\<forall>e\<in>set es. entry_good h' e)"
  using assms
proof (induction ds arbitrary: entries h)
  case Nil
  then show ?case by (auto simp: step_from_refl)
next
  case (Cons d ds)
  show ?case
  proof (cases "DeviceCapabilitiesQuery (idVendor d) (idProduct d)")
    case None
    with Cons show ?thesis by simp
  next
    case (Some caps)
    obtain st oe h1 where c: "DeviceListEntryCreate d caps h = (st, oe, h1)"
      by (cases "DeviceListEntryCreate d caps h") auto
    note s = DeviceListEntryCreate_step [OF Cons.prems(1) c]
    then have s1: "step_from (next_addr h) h h1" and ok1: "heap_ok h1"
      by (auto simp: step_from_def)
    have old: "\<forall>e\<in>set entries. entry_good h1 e"
      using Cons.prems(2) s1 by (blast intro: entry_good_step)
    show ?thesis
    proof (cases oe)
      case None
      with Cons.prems(3) Some c
      have "st \<noteq> RELACON_STATUS_ERROR_OUT_OF_MEMORY"
        and "DeviceListEntriesCreate_libusb ds entries h1 = (RELACON_STATUS_SUCCESS, es, h')"
        by (auto split: if_splits)
      from Cons.IH [OF ok1 old this(2)] show ?thesis
        using s1 by (blast intro: step_from_chain)
    next
      case (Some e)
      with s have "entry_good h1 e" by simp
      with old have inv: "\<forall>x\<in>set (entries @ [e]). entry_good h1 x" by simp
      have "DeviceListEntriesCreate_libusb ds (entries @ [e]) h1 = (RELACON_STATUS_SUCCESS, es, h')"
        using Cons.prems(3) \<open>DeviceCapabilitiesQuery (idVendor d) (idProduct d) = Some caps\<close> c Some
        by simp
      from Cons.IH [OF ok1 inv this] show ?thesis
        using s1 by (blast intro: step_from_chain)
    qed
  qed
qed

subsection \<open>Opening: filters and first match\<close>

lemma FindFirstMatchingDevice_find:
  "FindFirstMatchingDevice devList v p serial h =
     (map_option devInfo
        (find (\<lambda>e. candidate_matches v p serial h (devInfo e)) (listCurrent devList)),
      devList\<lparr>listCurrent :=
         (case dropWhile (\<lambda>e. \<not> candidate_matches v p serial h (devInfo e)) (listCurrent devList) of
            [] \<Rightarrow> [] | e # rest \<Rightarrow> rest)\<rparr>)"
proof (induction "listCurrent devList" arbitrary: devList)
  case Nil
  then show ?case
    by (subst FindFirstMatchingDevice.simps) (simp add: BackendDeviceListGetNext_def)
next
  case (Cons e rest)
  from Cons(2) have lc: "listCurrent devList = e # rest" by simp
  have "rest = listCurrent (devList\<lparr>listCurrent := rest\<rparr>)" by simp
  from Cons(1) [OF this] show ?case
    by (subst FindFirstMatchingDevice.simps) (simp add: BackendDeviceListGetNext_def lc)
qed


lemma BackendDeviceListCreate_fresh:
  "BackendDeviceListCreate bk en h = (st, Some bl, h') \<Longrightarrow>
     listCurrent bl = listStart bl \<and> st = RELACON_STATUS_SUCCESS"
  by (auto simp: BackendDeviceListCreate_def BackendDeviceListCreate_hidapi_def
      BackendDeviceListCreate_libusb_def case_prod_beta
      split: backend_kind.splits option.splits if_splits prod.splits)

lemma RelaconDeviceListCreate_fresh:
  "RelaconDeviceListCreate bk en h = (Some dl, h1) \<Longrightarrow>
     listCurrent (backendDeviceList dl) = listStart (backendDeviceList dl)"
  by (auto simp: RelaconDeviceListCreate_def dest: BackendDeviceListCreate_fresh
      split: option.splits if_splits prod.splits)




subsection \<open>Opening and closing: ownership of the identity strings\<close>

lemma hidapi_create_good:
  assumes ok: "heap_ok h"
      and r: "DeviceListEntriesCreate_hidapi flt ds h = (RELACON_STATUS_SUCCESS, es, h')"
  shows "step_from (next_addr h) h h' \<and> (\<forall>e\<in>set es. entry_good h' e)"
proof -
  obtain st es1 h1 where l: "DeviceListEntriesCreate_hidapi_loop flt ds [] h = (st, es1, h1)"
    by (cases "DeviceListEntriesCreate_hidapi_loop flt ds [] h") auto
  from r have "st = RELACON_STATUS_SUCCESS" "es1 = es" "h1 = h'"
    by (auto simp: DeviceListEntriesCreate_hidapi_def l split: if_splits)
  with hidapi_loop_good [OF ok _ l] show ?thesis by simp
qed

lemma BackendDeviceListCreate_good:
  assumes ok: "heap_ok h" and r: "BackendDeviceListCreate bk en h = (st, Some bl, h')"
  shows "step_from (next_addr h) h h' \<and> list_addr bl < next_addr h' \<and>
         (\<forall>e\<in>set (listStart bl). entry_good h' e)"
proof -
  obtain p h1 where m: "malloc StructBlock h = (p, h1)"
    by (cases "malloc StructBlock h") auto
  have s1: "step_from (next_addr h) h h1"
    using malloc_step [OF ok _ m] by simp
  have ok1: "heap_ok h1" using s1 by (rule step_from_heap_ok)
  from r m obtain a ds where p: "p = Some a" and en: "en = Some ds"
    by (cases p; cases en)
       (auto simp: BackendDeviceListCreate_def BackendDeviceListCreate_hidapi_def
          BackendDeviceListCreate_libusb_def split: backend_kind.splits)
  have a: "a < next_addr h1"
    using malloc_block(2,3) [OF ok] m p by auto
  show ?thesis
  proof (cases bk)
    case (Hidapi flt)
    obtain st2 es h2 where c: "DeviceListEntriesCreate_hidapi flt ds h1 = (st2, es, h2)"
      by (cases "DeviceListEntriesCreate_hidapi flt ds h1") auto
    from r have st2: "st2 = RELACON_STATUS_SUCCESS" and bl: "listStart bl = es" "list_addr bl = a" and h': "h' = h2"
      by (auto simp: BackendDeviceListCreate_def BackendDeviceListCreate_hidapi_def Hidapi m p en c
          split: if_splits)
    from hidapi_create_good [OF ok1] c st2
    have g: "step_from (next_addr h1) h1 h2" "\<forall>e\<in>set es. entry_good h2 e" by auto
    have "step_from (next_addr h) h h2" using s1 g(1) by (rule step_from_chain)
    moreover have "a < next_addr h2" using a g(1) by (auto simp: step_from_def)
    ultimately show ?thesis using g(2) by (simp add: bl h')
  next
    case Libusb
    obtain st2 es h2 where c: "DeviceListEntriesCreate_libusb ds [] h1 = (st2, es, h2)"
      by (cases "DeviceListEntriesCreate_libusb ds [] h1") auto
    from r have st2: "st2 = RELACON_STATUS_SUCCESS" and bl: "listStart bl = es" "list_addr bl = a" and h': "h' = h2"
      by (auto simp: BackendDeviceListCreate_def BackendDeviceListCreate_libusb_def Libusb m p en c
          split: if_splits)
    from libusb_loop_good [OF ok1, of "[]" ds es h2] c st2
    have g: "step_from (next_addr h1) h1 h2" "\<forall>e\<in>set es. entry_good h2 e" by auto
    have "step_from (next_addr h) h h2" using s1 g(1) by (rule step_from_chain)
    moreover have "a < next_addr h2" using a g(1) by (auto simp: step_from_def)
    ultimately show ?thesis using g(2) by (simp add: bl h')
  qed
qed

lemma RelaconDeviceListCreate_good:
  assumes ok: "heap_ok h" and r: "RelaconDeviceListCreate bk en h = (Some dl, h1)"
  shows "step_from (next_addr h) h h1 \<and> rdl_addr dl < next_addr h1 \<and>
         list_addr (backendDeviceList dl) < next_addr h1 \<and>
         (\<forall>e\<in>set (listStart (backendDeviceList dl)). entry_good h1 e)"
proof -
  obtain p h0 where m: "malloc StructBlock h = (p, h0)"
    by (cases "malloc StructBlock h") auto
  have s1: "step_from (next_addr h) h h0"
    using malloc_step [OF ok _ m] by simp
  have ok0: "heap_ok h0" using s1 by (rule step_from_heap_ok)
  from r m obtain a where p: "p = Some a"
    by (cases p) (auto simp: RelaconDeviceListCreate_def)
  have a: "a < next_addr h0"
    using malloc_block(2,3) [OF ok] m p by auto
  obtain st obl h2 where c: "BackendDeviceListCreate bk en h0 = (st, obl, h2)"
    by (cases "BackendDeviceListCreate bk en h0") auto
  from r have obl: "obl = Some (backendDeviceList dl)" and h1: "h1 = h2" and ra: "rdl_addr dl = a"
    by (auto simp: RelaconDeviceListCreate_def m p c split: option.splits if_splits)
  note g = BackendDeviceListCreate_good [OF ok0 c [unfolded obl]]
  have "step_from (next_addr h) h h2" using s1 g by (blast intro: step_from_chain)
  moreover have "a < next_addr h2" using a g by (auto simp: step_from_def)
  ultimately show ?thesis using g by (simp add: h1 ra)
qed

lemma is_live_block_at: "is_live h a \<longleftrightarrow> block_at h a \<noteq> None"
  by (simp add: is_live_def block_at_def)

lemma string_at_block_at:
  "string_at h (Some a) = (case block_at h a of Some (StringBlock s) \<Rightarrow> Some s | _ \<Rightarrow> None)"
  by (simp add: string_at_def block_at_def)

lemma BackendDeviceOpen_step:
  assumes ok: "heap_ok h" and r: "BackendDeviceOpen bk bl hdl h = (st, obd, h')"
  shows "step_from (next_addr h) h h'"
proof (cases "find (\<lambda>e. Some (entry_addr e) = hdl) (listStart bl)")
  case None
  with r ok show ?thesis by (auto simp: BackendDeviceOpen_def step_from_refl)
next
  case (Some e)
  obtain p h1 where m: "malloc StructBlock h = (p, h1)"
    by (cases "malloc StructBlock h") auto
  have s1: "step_from (next_addr h) h h1"
    using malloc_step [OF ok _ m] by simp
  have ok1: "heap_ok h1" using s1 by (rule step_from_heap_ok)
  show ?thesis
  proof (cases p)
    case None
    with r Some m s1 show ?thesis by (simp add: BackendDeviceOpen_def)
  next
    case (Some a)
    have "step_from (next_addr h) h1 (free (Some a) h1)"
      using ok1 malloc_block(2) [OF ok] m Some by (intro free_step) auto
    with s1 have "step_from (next_addr h) h (free (Some a) h1)"
      by (rule step_from_trans)
    with r \<open>find (\<lambda>e. Some (entry_addr e) = hdl) (listStart bl) = Some e\<close> m Some s1
    show ?thesis
      by (auto simp: BackendDeviceOpen_def split: if_splits backend_kind.splits)
  qed
qed

lemma strdup_copied:
  assumes ok: "heap_ok h" and g: "good h src"
      and r: "(if src \<noteq> None then strdup src h else (src, h)) = (dst, h')"
  shows "step_from (next_addr h) h h' \<and> copied h h' src dst"
proof (cases src)
  case None
  with r ok show ?thesis by (auto simp: step_from_refl copied_def)
next
  case (Some a)
  with g obtain s where s: "block_at h a = Some (StringBlock s)" "a < next_addr h"
    by (auto simp: good_def)
  then have sa: "string_at h src = Some s"
    by (simp add: Some string_at_block_at)
  from r Some sa have m: "malloc (StringBlock s) h = (dst, h')"
    by (simp add: strdup_def)
  have s1: "step_from (next_addr h) h h'"
    using malloc_step [OF ok _ m] by simp
  show ?thesis
  proof (cases dst)
    case None
    with m have "False \<in> set (alloc_ok h)"
      by (cases "alloc_ok h") (auto simp: malloc_def split: if_splits)
    with s1 None show ?thesis by (simp add: copied_def)
  next
    case (Some b)
    with malloc_block [OF ok, of "StringBlock s" b h'] m sa s1 \<open>src = Some a\<close>
    show ?thesis by (auto simp: copied_def)
  qed
qed

lemma block_at_DeviceInfoFree:
  "block_at (DeviceInfoFree di h) b =
     (if manufacturer di = Some b \<or> product di = Some b \<or> serialNum di = Some b
      then None else block_at h b)"
  by (auto simp: DeviceInfoFree_def block_at_free)

lemma set_entry_addrs:
  "b \<in> set (entry_addrs e) \<longleftrightarrow>
     b = entry_addr e \<or> manufacturer (devInfo e) = Some b \<or> product (devInfo e) = Some b \<or>
     serialNum (devInfo e) = Some b"
  by (auto simp: entry_addrs_def split: option.splits)

lemma block_at_DeviceListEntriesDestroy:
  "block_at (DeviceListEntriesDestroy es h) b =
     (if b \<in> set (concat (map entry_addrs es)) then None else block_at h b)"
proof (induction es arbitrary: h)
  case Nil
  then show ?case by simp
next
  case (Cons e es)
  show ?case
    by (auto simp add: Cons.IH block_at_free block_at_DeviceInfoFree set_entry_addrs)
qed

lemma block_at_RelaconDeviceListDestroy:
  "block_at (snd (RelaconDeviceListDestroy dl h)) b =
     (if b \<in> set (listing_addrs dl) then None else block_at h b)"
  by (auto simp: RelaconDeviceListDestroy_def BackendDeviceListDestroy_def listing_addrs_def
      block_at_free block_at_DeviceListEntriesDestroy)

lemma entry_good_addrs:
  "entry_good h e \<Longrightarrow> b \<in> set (entry_addrs e) \<Longrightarrow> b < next_addr h"
  by (auto simp: entry_good_def good_def set_entry_addrs)

lemma step_from_alloc_ok: "step_from n h h' \<Longrightarrow> set (alloc_ok h') \<subseteq> set (alloc_ok h)"
  by (simp add: step_from_def)

lemma step_from_block_at: "step_from n h h' \<Longrightarrow> a < n \<Longrightarrow> block_at h' a = block_at h a"
  by (simp add: step_from_def)

lemma owned_copy_intro:
  assumes ok1: "heap_ok h1" and g: "good h1 src"
      and sa: "step_from (next_addr h1) h1 ha"
      and c: "copied ha hb src dst"
      and sb: "step_from (next_addr hb) hb h7"
      and below: "\<forall>a\<in>set (listing_addrs dl). a < next_addr h1"
      and destroy: "\<And>b. block_at h2 b = (if b \<in> set (listing_addrs dl) then None else block_at h7 b)"
  shows "owned_copy h1 h2 dl src dst"
proof (cases dst)
  case None
  then show ?thesis by (simp add: owned_copy_def)
next
  case (Some b)
  with c obtain s where src: "src \<noteq> None" and b: "next_addr ha \<le> b" "b < next_addr hb"
    and blk: "block_at hb b = Some (StringBlock s)" and str: "string_at ha src = Some s"
    by (auto simp: copied_def)
  have b1: "next_addr h1 \<le> b"
    using b(1) step_from_next [OF sa] by simp
  then have notin: "b \<notin> set (listing_addrs dl)"
    using below by auto
  have fresh: "\<not> is_live h1 b"
    using block_at_above [OF ok1 b1] by (simp add: is_live_block_at)
  have "block_at h2 b = Some (StringBlock s)"
    using destroy [of b] notin step_from_block_at [OF sb b(2)] blk by simp
  then have s2: "string_at h2 (Some b) = Some s"
    by (simp add: string_at_block_at)
  from src obtain a0 where a0: "src = Some a0" by auto
  with g have "a0 < next_addr h1" by (simp add: good_def)
  then have "block_at ha a0 = block_at h1 a0"
    using sa by (rule step_from_block_at [rotated])
  then have "string_at h1 src = Some s"
    using str by (simp add: a0 string_at_block_at)
  then show ?thesis
    using Some src notin fresh s2 by (simp add: owned_copy_def)
qed

lemma copied_present:
  assumes "copied ha hb src dst" "False \<notin> set (alloc_ok ha)"
  shows "dst = None \<longleftrightarrow> src = None"
  using assms by (cases dst) (auto simp: copied_def)

text \<open>
  C8. Take a heap in order, the listing that \<open>RelaconDeviceOpen\<close> creates and a session
  it returns. Each of the session's product, manufacturer and serial-number strings is
  the session's own copy of the matched entry's string: \<open>NULL\<close> only where the entry has
  none (or, when an allocation can fail, where duplicating failed), otherwise a block
  that is no block of the listing, that was not in use before, and that holds the
  entry's characters after the open has destroyed the listing. No block of the listing
  is live after the open. Closing the session succeeds and leaves none of the three
  strings live.
\<close>

theorem RelaconDeviceOpen_owns_strings:
  assumes ok: "heap_ok h"
      and cr: "RelaconDeviceListCreate bk enumeration h = (Some dl, h1)"
      and op: "RelaconDeviceOpen bk enumeration v p serial raw h = (Some dev, h2)"
  shows "(\<exists>e. find (\<lambda>e. candidate_matches v p serial h1 (devInfo e))
                (listStart (backendDeviceList dl)) = Some e
            \<and> owned_copy h1 h2 dl (product (devInfo e)) (product (info dev))
            \<and> owned_copy h1 h2 dl (manufacturer (devInfo e)) (manufacturer (info dev))
            \<and> owned_copy h1 h2 dl (serialNum (devInfo e)) (serialNum (info dev))
            \<and> (False \<notin> set (alloc_ok h) \<longrightarrow>
                 (product (info dev) = None \<longleftrightarrow> product (devInfo e) = None) \<and>
                 (manufacturer (info dev) = None \<longleftrightarrow> manufacturer (devInfo e) = None) \<and>
                 (serialNum (info dev) = None \<longleftrightarrow> serialNum (devInfo e) = None)))
       \<and> (\<forall>a\<in>set (listing_addrs dl). \<not> is_live h2 a)
       \<and> fst (RelaconDeviceClose dev h2) = RELACON_STATUS_SUCCESS
       \<and> (\<forall>a. product (info dev) = Some a \<or> manufacturer (info dev) = Some a \<or>
               serialNum (info dev) = Some a \<longrightarrow>
               \<not> is_live (snd (RelaconDeviceClose dev h2)) a)"
proof -
  let ?P = "\<lambda>e. candidate_matches v p serial h1 (devInfo e)"
  let ?bl = "backendDeviceList dl"
  let ?bl1 = "snd (FindFirstMatchingDevice ?bl v p serial h1)"
  note lg = RelaconDeviceListCreate_good [OF ok cr]
  then have s01: "step_from (next_addr h) h h1" and ok1: "heap_ok h1"
    by (auto simp: step_from_def)
  have fr: "listCurrent ?bl = listStart ?bl"
    using cr by (rule RelaconDeviceListCreate_fresh)
  have ff: "fst (FindFirstMatchingDevice ?bl v p serial h1) = map_option devInfo (find ?P (listStart ?bl))"
    by (simp add: FindFirstMatchingDevice_find fr)
  have ls: "listStart ?bl1 = listStart ?bl" "list_addr ?bl1 = list_addr ?bl"
    by (simp_all add: FindFirstMatchingDevice_find)
  have la: "listing_addrs (dl\<lparr>backendDeviceList := ?bl1\<rparr>) = listing_addrs dl"
    by (simp add: listing_addrs_def ls)
  from op ff obtain e where e: "find ?P (listStart ?bl) = Some e"
    by (cases "find ?P (listStart ?bl)") (auto simp: RelaconDeviceOpen_def cr case_prod_beta)
  then have fd: "fst (FindFirstMatchingDevice ?bl v p serial h1) = Some (devInfo e)"
    using ff by simp
  have emem: "e \<in> set (listStart ?bl)"
    using e by (auto simp: find_Some_iff in_set_conv_nth)
  then have eg: "entry_good h1 e" using lg by simp
  let ?di = "devInfo e"
  obtain st obd h3 where bo: "BackendDeviceOpen bk ?bl1 (handle ?di) h1 = (st, obd, h3)"
    by (cases "BackendDeviceOpen bk ?bl1 (handle ?di) h1") auto
  from op obtain bd where obd: "obd = Some bd"
    by (cases obd) (auto simp: RelaconDeviceOpen_def cr case_prod_beta fd bo)
  obtain pa h4 where m: "malloc StructBlock h3 = (pa, h4)"
    by (cases "malloc StructBlock h3") auto
  from op obtain a where pa: "pa = Some a"
    by (cases pa) (auto simp: RelaconDeviceOpen_def cr case_prod_beta fd bo obd m)
  define r5 where "r5 = copy_if_set (product ?di) h4"
  define pr where "pr = fst r5"
  define h5 where "h5 = snd r5"
  define r6 where "r6 = copy_if_set (manufacturer ?di) h5"
  define mf where "mf = fst r6"
  define h6 where "h6 = snd r6"
  define r7 where "r7 = copy_if_set (serialNum ?di) h6"
  define sn where "sn = fst r7"
  define h7 where "h7 = snd r7"
  have c5: "(if product ?di \<noteq> None then strdup (product ?di) h4 else (product ?di, h4)) = (pr, h5)"
    unfolding pr_def h5_def r5_def copy_if_set_def by simp
  have c6: "(if manufacturer ?di \<noteq> None then strdup (manufacturer ?di) h5 else (manufacturer ?di, h5)) = (mf, h6)"
    unfolding mf_def h6_def r6_def copy_if_set_def by simp
  have c7: "(if serialNum ?di \<noteq> None then strdup (serialNum ?di) h6 else (serialNum ?di, h6)) = (sn, h7)"
    unfolding sn_def h7_def r7_def copy_if_set_def by simp
  from op have dev0: "dev = \<lparr>dev_addr = a, backendDevice = bd, reportBuf = fst raw,
        after_reportBuf = snd raw, info = ?di\<lparr>product := fst r5, manufacturer := fst r6, serialNum := fst r7\<rparr>\<rparr>"
    and h20: "h2 = snd (RelaconDeviceListDestroy (dl\<lparr>backendDeviceList := ?bl1\<rparr>) (snd r7))"
    unfolding r7_def h6_def r6_def h5_def r5_def
    by (auto simp add: RelaconDeviceOpen_def cr case_prod_beta fd bo obd m pa Let_def)
  have dev: "info dev = ?di\<lparr>product := pr, manufacturer := mf, serialNum := sn\<rparr>"
      "dev_addr dev = a" "backendDevice dev = bd"
    and h2: "h2 = snd (RelaconDeviceListDestroy (dl\<lparr>backendDeviceList := ?bl1\<rparr>) h7)"
    using dev0 h20 by (simp_all add: pr_def mf_def sn_def h7_def)
  have s13: "step_from (next_addr h1) h1 h3"
    using BackendDeviceOpen_step [OF ok1 bo] .
  then have ok3: "heap_ok h3" by (rule step_from_heap_ok)
  have s34: "step_from (next_addr h3) h3 h4"
    using malloc_step [OF ok3 _ m] by simp
  then have ok4: "heap_ok h4" by (rule step_from_heap_ok)
  have s14: "step_from (next_addr h1) h1 h4"
    using s13 s34 by (rule step_from_chain)
  have g1: "good h1 (product ?di)" "good h1 (manufacturer ?di)" "good h1 (serialNum ?di)"
    using eg by (auto simp: entry_good_def)
  have k5: "step_from (next_addr h4) h4 h5 \<and> copied h4 h5 (product ?di) pr"
    using strdup_copied [OF ok4 _ c5] g1(1) s14 by (blast intro: good_step)
  then have ok5: "heap_ok h5" by (auto simp: step_from_def)
  have s15: "step_from (next_addr h1) h1 h5"
    using s14 k5 by (blast intro: step_from_chain)
  have k6: "step_from (next_addr h5) h5 h6 \<and> copied h5 h6 (manufacturer ?di) mf"
    using strdup_copied [OF ok5 _ c6] g1(2) s15 by (blast intro: good_step)
  then have ok6: "heap_ok h6" by (auto simp: step_from_def)
  have s16: "step_from (next_addr h1) h1 h6"
    using s15 k6 by (blast intro: step_from_chain)
  have k7: "step_from (next_addr h6) h6 h7 \<and> copied h6 h7 (serialNum ?di) sn"
    using strdup_copied [OF ok6 _ c7] g1(3) s16 by (blast intro: good_step)
  then have ok7: "heap_ok h7" by (auto simp: step_from_def)
  have s57: "step_from (next_addr h5) h5 h7"
    using k6 k7 by (blast intro: step_from_chain)
  have below: "\<forall>a\<in>set (listing_addrs dl). a < next_addr h1"
    using lg by (auto simp: listing_addrs_def dest: entry_good_addrs)
  have destroy: "block_at h2 b = (if b \<in> set (listing_addrs dl) then None else block_at h7 b)" for b
    by (simp add: h2 block_at_RelaconDeviceListDestroy la)
  have o1: "owned_copy h1 h2 dl (product ?di) pr"
    using owned_copy_intro [OF ok1 g1(1) s14 _ s57 below destroy] k5 by blast
  have o2: "owned_copy h1 h2 dl (manufacturer ?di) mf"
    using owned_copy_intro [OF ok1 g1(2) s15 _ _ below destroy] k6 k7 by blast
  have o3: "owned_copy h1 h2 dl (serialNum ?di) sn"
    using owned_copy_intro [OF ok1 g1(3) s16 _ step_from_refl [OF ok7] below destroy] k7 by blast
  have present: "(pr = None \<longleftrightarrow> product ?di = None) \<and> (mf = None \<longleftrightarrow> manufacturer ?di = None) \<and>
      (sn = None \<longleftrightarrow> serialNum ?di = None)" if nf: "False \<notin> set (alloc_ok h)"
  proof -
    have "False \<notin> set (alloc_ok h4)" "False \<notin> set (alloc_ok h5)" "False \<notin> set (alloc_ok h6)"
      using nf step_from_alloc_ok [OF s01] step_from_alloc_ok [OF s14] step_from_alloc_ok [OF s15]
        step_from_alloc_ok [OF s16] by auto
    with k5 k6 k7 show ?thesis
      by (auto dest: copied_present)
  qed
  have freed: "\<forall>a\<in>set (listing_addrs dl). \<not> is_live h2 a"
    by (simp add: is_live_block_at destroy)
  have closed: "\<not> is_live (snd (RelaconDeviceClose dev h2)) b"
    if "product (info dev) = Some b \<or> manufacturer (info dev) = Some b \<or> serialNum (info dev) = Some b" for b
    using that
    by (auto simp: RelaconDeviceClose_def BackendDeviceClose_def Let_def is_live_block_at block_at_free)
  have st: "fst (RelaconDeviceClose dev h2) = RELACON_STATUS_SUCCESS"
    by (simp add: RelaconDeviceClose_def BackendDeviceClose_def Let_def)
  show ?thesis
    using e o1 o2 o3 present freed closed st by (simp add: dev)
qed

subsection \<open>Enumeration failures\<close>






















subsection \<open>Opening on concrete devices\<close>

lemma pair_the: "fst x \<noteq> None \<Longrightarrow> x = (Some (the (fst x)), snd x)"
  by (cases x) auto


text \<open>
  C8 on the concrete devices, with the libusb transport: the session's serial number is
  its own copy and reads 12 after the listing is gone.
\<close>

theorem RelaconDeviceOpen_owns_strings_witness:
  "heap_ok example_heap
   \<and> fst (RelaconDeviceListCreate Libusb (Some example_usb) example_heap) \<noteq> None
   \<and> fst (RelaconDeviceOpen Libusb (Some example_usb) 0 0 None ([], []) example_heap) \<noteq> None
   \<and> (\<exists>e :: BackendDeviceListEntry. device e = usb_adu218
          \<and> owned_copy (snd (RelaconDeviceListCreate Libusb (Some example_usb) example_heap))
               (snd (RelaconDeviceOpen Libusb (Some example_usb) 0 0 None ([], []) example_heap))
               (the (fst (RelaconDeviceListCreate Libusb (Some example_usb) example_heap)))
               (serialNum (devInfo e))
               (serialNum (info (the (fst (RelaconDeviceOpen Libusb (Some example_usb) 0 0 None
                                            ([], []) example_heap))))))
   \<and> string_at (snd (RelaconDeviceOpen Libusb (Some example_usb) 0 0 None ([], []) example_heap))
        (serialNum (info (the (fst (RelaconDeviceOpen Libusb (Some example_usb) 0 0 None
                                      ([], []) example_heap))))) = Some [49, 50]
   \<and> fst (RelaconDeviceClose
            (the (fst (RelaconDeviceOpen Libusb (Some example_usb) 0 0 None ([], []) example_heap)))
            (snd (RelaconDeviceOpen Libusb (Some example_usb) 0 0 None ([], []) example_heap))) =
       RELACON_STATUS_SUCCESS"
proof -
  let ?X = "RelaconDeviceListCreate Libusb (Some example_usb) example_heap"
  let ?Y = "RelaconDeviceOpen Libusb (Some example_usb) 0 0 None ([], []) example_heap"
  have ok: "heap_ok example_heap" by (simp add: heap_ok_def example_heap_def)
  have x: "fst ?X \<noteq> None" by code_simp
  have y: "fst ?Y \<noteq> None" by code_simp
  note t = RelaconDeviceOpen_owns_strings [OF ok pair_the [OF x] pair_the [OF y]]
  from t obtain e where e: "find (\<lambda>e. candidate_matches 0 0 None (snd ?X) (devInfo e))
                (listStart (backendDeviceList (the (fst ?X)))) = Some e"
      "owned_copy (snd ?X) (snd ?Y) (the (fst ?X)) (serialNum (devInfo e))
         (serialNum (info (the (fst ?Y))))"
    by blast
  have f: "map_option device (find (\<lambda>e. candidate_matches 0 0 None (snd ?X) (devInfo e))
              (listStart (backendDeviceList (the (fst ?X))))) = Some usb_adu218"
    by code_simp
  have de: "device e = usb_adu218" using f e(1) by simp
  have s: "string_at (snd ?Y) (serialNum (info (the (fst ?Y)))) = Some [49, 50]"
    by code_simp
  have c: "fst (RelaconDeviceClose (the (fst ?Y)) (snd ?Y)) = RELACON_STATUS_SUCCESS"
    using t by blast
  have ex: "\<exists>e :: BackendDeviceListEntry. device e = usb_adu218
          \<and> owned_copy (snd ?X) (snd ?Y) (the (fst ?X)) (serialNum (devInfo e))
               (serialNum (info (the (fst ?Y))))"
    using de e(2) by blast
  from ok x y ex s c show ?thesis
    by (intro conjI)
qed

end
